theory Spec2Isabelle
  imports Complex_Main
begin

section \<open>Data model (drizzle/schema.ts)\<close>

text \<open>
  Each table of the schema is a list of rows, in insertion order; a \<open>select ... limit(1)\<close>
  returns the first row of the list that matches. Timestamps (JavaScript \<open>Date\<close> values) are
  their \<open>getTime()\<close> value, epoch milliseconds. A \<open>YYYY-MM-DD\<close> string of the UTC calendar
  (\<open>toISOString().split('T')[0]\<close>) is represented by its UTC day number
  (\<open>getTime() div 86400000\<close>). Decimal coordinates are real numbers: the rounding of IEEE
  doubles is not represented. Only the columns the modelled operations read or write are kept;
  titles and message texts of notifications are left out.
\<close>

datatype biometric = Face | Fingerprint | Eye

datatype employee_role = RoleEmployee | RoleBranchManager | RoleAdmin

datatype attendance_status = Present | Late | Absent | HalfDay

datatype admin_notification_type =
  NotifLate | NotifAbsent | NotifOutsideZone | NotifLeftZone | NotifEarlyCheckout
  | NotifSystem | NotifDeviceMismatch

datatype branch_notification_type =
  BranchEmployeeAdded | BranchEmployeeCheckIn | BranchEmployeeCheckOut | BranchEmployeeLate
  | BranchEmployeeAbsent | BranchEmployeeEarlyCheckout | BranchEmployeeOutsideZone
  | BranchGeneral

datatype field_task_status = TaskActive | TaskCompleted | TaskCancelled

datatype leave_type = Annual | Sick | Emergency | Unpaid

datatype leave_status = Pending | Approved | Rejected

record employee =
  e_id :: nat
  e_userId :: "nat option"
  employeeCode :: string
  e_role :: employee_role
  branchId :: "nat option"
  faceDataId :: "string option"
  fingerprintEnabled :: "bool option"
  registeredDeviceId :: "string option"
  deviceRegisteredAt :: "int option"

record attendance_record =
  a_id :: nat
  a_employeeId :: nat
  a_date :: int
  checkInTime :: "int option"
  checkOutTime :: "int option"
  checkInLatitude :: "real option"
  checkInLongitude :: "real option"
  checkOutLatitude :: "real option"
  checkOutLongitude :: "real option"
  checkInMethod :: "biometric option"
  checkOutMethod :: "biometric option"
  a_status :: attendance_status

record work_settings =
  workStartTime :: string
  workEndTime :: string
  lateThresholdMinutes :: int

record work_zone =
  z_id :: nat
  z_name :: string
  z_latitude :: real
  z_longitude :: real
  radiusMeters :: int
  isActive :: bool

record admin_notification =
  n_id :: nat
  n_type :: admin_notification_type
  n_employeeId :: "nat option"

record branch_notification =
  bn_id :: nat
  bn_branchId :: nat
  bn_type :: branch_notification_type
  bn_employeeId :: "nat option"

record field_task =
  ft_id :: nat
  ft_employeeId :: nat
  ft_date :: int
  ft_startTime :: "int option"
  ft_status :: field_task_status

record leave_request =
  lr_id :: nat
  lr_employeeId :: nat
  lr_leaveType :: leave_type
  lr_startDate :: int
  lr_endDate :: int
  totalDays :: int
  lr_status :: leave_status
  reviewedBy :: "nat option"
  reviewedAt :: "int option"
  rejectionReason :: "string option"

record leave_balance =
  lb_id :: nat
  lb_employeeId :: nat
  lb_year :: int
  annualBalance :: int
  sickBalance :: int
  emergencyBalance :: int
  usedAnnual :: int
  usedSick :: int
  usedEmergency :: int

text \<open>
  The store. \<open>notificationInsertFails\<close> is the one environmental fault that is represented:
  when it is set, an insert into \<open>admin_notifications\<close> or \<open>branch_notifications\<close> rejects
  (the promise of \<open>createNotification\<close> / \<open>createBranchNotification\<close> rejects), and every
  other statement still succeeds.
\<close>

record world =
  employees :: "employee list"
  attendanceRecords :: "attendance_record list"
  workSettings :: "work_settings list"
  workZones :: "work_zone list"
  adminNotifications :: "admin_notification list"
  branchNotifications :: "branch_notification list"
  fieldTasks :: "field_task list"
  leaveRequests :: "leave_request list"
  leaveBalances :: "leave_balance list"
  notificationInsertFails :: bool

text \<open>
  Every \<open>throw new Error(...)\<close> of the modelled procedures is one constructor. The spec's kinds:
  \<open>EmployeeNotFound\<close>, \<open>RequestNotFound\<close> are NotFound; \<open>AlreadyCheckedIn\<close>,
  \<open>NoCheckInToday\<close>, \<open>AlreadyCheckedOut\<close>, \<open>AlreadyDecided\<close> are Conflict;
  \<open>DeviceUnauthorized\<close>, \<open>OutsideWorkZone\<close>, \<open>ReviewerUnauthorized\<close> are Forbidden;
  \<open>InsufficientBalance\<close> (with the remaining days of the message) is ValidationFailed.
  \<open>DatabaseError\<close> is the rejection of a failed insert.
\<close>

datatype error =
  EmployeeNotFound | FingerprintNotRegistered | FaceNotRegistered
  | DeviceUnauthorized | AlreadyCheckedIn | OutsideWorkZone
  | NoCheckInToday | AlreadyCheckedOut
  | InsufficientBalance int | ReviewerUnauthorized | RequestNotFound | AlreadyDecided
  | DatabaseError

text \<open>
  A procedure returns its result or the error it threw, together with the store as it
  left it: the statements run before a \<open>throw\<close> are not rolled back.
\<close>

type_synonym 'a outcome = "(error + 'a) \<times> world"

definition andThen :: "'a outcome \<Rightarrow> ('a \<Rightarrow> world \<Rightarrow> 'b outcome) \<Rightarrow> 'b outcome" where
  "andThen m f = (case m of (Inl e, w) \<Rightarrow> (Inl e, w) | (Inr x, w) \<Rightarrow> f x w)"

text \<open>\<open>insertId\<close> of an auto-increment primary key.\<close>

definition nextId :: "nat list \<Rightarrow> nat" where
  "nextId ids = Suc (foldr max ids 0)"

text \<open>JavaScript truthiness of a nullable string: \<open>null\<close>, \<open>undefined\<close> and \<open>""\<close> are falsy.\<close>

definition truthy :: "string option \<Rightarrow> bool" where
  "truthy s = (case s of None \<Rightarrow> False | Some t \<Rightarrow> t \<noteq> [])"

section \<open>Employees and device binding (db.ts)\<close>

definition getEmployeeByCode :: "world \<Rightarrow> string \<Rightarrow> employee option" where
  "getEmployeeByCode w code = find (\<lambda>e. employeeCode e = code) (employees w)"

definition getEmployeeByUserId :: "world \<Rightarrow> nat \<Rightarrow> employee option" where
  "getEmployeeByUserId w uid = find (\<lambda>e. e_userId e = Some uid) (employees w)"

definition getEmployeeById :: "world \<Rightarrow> nat \<Rightarrow> employee option" where
  "getEmployeeById w i = find (\<lambda>e. e_id e = i) (employees w)"

definition registerEmployeeDevice :: "int \<Rightarrow> nat \<Rightarrow> string \<Rightarrow> world \<Rightarrow> world" where
  "registerEmployeeDevice now employeeId deviceId w =
     w\<lparr>employees := map (\<lambda>e. if e_id e = employeeId
                                then e\<lparr>registeredDeviceId := Some deviceId,
                                       deviceRegisteredAt := Some now\<rparr>
                                else e) (employees w)\<rparr>"

record device_check =
  isRegistered :: bool
  isMatch :: bool
  dc_registeredDeviceId :: "string option"

definition checkEmployeeDevice :: "world \<Rightarrow> nat \<Rightarrow> string \<Rightarrow> device_check" where
  "checkEmployeeDevice w employeeId deviceId =
     (case getEmployeeById w employeeId of
        None \<Rightarrow> \<lparr>isRegistered = False, isMatch = False, dc_registeredDeviceId = None\<rparr>
      | Some e \<Rightarrow>
          if \<not> truthy (registeredDeviceId e)
          then \<lparr>isRegistered = False, isMatch = False, dc_registeredDeviceId = None\<rparr>
          else \<lparr>isRegistered = True,
                isMatch = (registeredDeviceId e = Some deviceId),
                dc_registeredDeviceId = registeredDeviceId e\<rparr>)"




section \<open>Attendance rows, settings, zones, notifications (db.ts)\<close>

definition today :: "int \<Rightarrow> int" where
  "today now = now div 86400000"

definition createAttendanceRecord :: "attendance_record \<Rightarrow> world \<Rightarrow> nat \<times> world" where
  "createAttendanceRecord row w =
     (let i = nextId (map a_id (attendanceRecords w))
      in (i, w\<lparr>attendanceRecords := attendanceRecords w @ [row\<lparr>a_id := i\<rparr>]\<rparr>))"

definition getTodayAttendance :: "world \<Rightarrow> nat \<Rightarrow> int \<Rightarrow> attendance_record option" where
  "getTodayAttendance w employeeId now =
     find (\<lambda>r. a_employeeId r = employeeId \<and> a_date r = today now) (attendanceRecords w)"

definition updateAttendanceRecord ::
  "nat \<Rightarrow> (attendance_record \<Rightarrow> attendance_record) \<Rightarrow> world \<Rightarrow> world" where
  "updateAttendanceRecord i upd w =
     w\<lparr>attendanceRecords := map (\<lambda>r. if a_id r = i then upd r else r) (attendanceRecords w)\<rparr>"

definition getWorkSettings :: "world \<Rightarrow> work_settings option" where
  "getWorkSettings w = (case workSettings w of [] \<Rightarrow> None | s # _ \<Rightarrow> Some s)"

definition getActiveWorkZones :: "world \<Rightarrow> work_zone list" where
  "getActiveWorkZones w = filter isActive (workZones w)"

definition createNotification ::
  "admin_notification_type \<Rightarrow> nat option \<Rightarrow> world \<Rightarrow> nat outcome" where
  "createNotification ty employeeId w =
     (if notificationInsertFails w then (Inl DatabaseError, w)
      else (let i = nextId (map n_id (adminNotifications w))
            in (Inr i, w\<lparr>adminNotifications := adminNotifications w
                  @ [\<lparr>n_id = i, n_type = ty, n_employeeId = employeeId\<rparr>]\<rparr>)))"

definition createBranchNotification ::
  "nat \<Rightarrow> branch_notification_type \<Rightarrow> nat option \<Rightarrow> world \<Rightarrow> nat outcome" where
  "createBranchNotification branch ty employeeId w =
     (if notificationInsertFails w then (Inl DatabaseError, w)
      else (let i = nextId (map bn_id (branchNotifications w))
            in (Inr i, w\<lparr>branchNotifications := branchNotifications w
                  @ [\<lparr>bn_id = i, bn_branchId = branch, bn_type = ty,
                      bn_employeeId = employeeId\<rparr>]\<rparr>)))"

text \<open>\<open>promise.catch(console.error)\<close>: the rejection is logged and dropped.\<close>

definition caught :: "'a outcome \<Rightarrow> world" where
  "caught m = snd m"

definition notifyLateArrival :: "nat \<Rightarrow> world \<Rightarrow> nat outcome" where
  "notifyLateArrival employeeId w = createNotification NotifLate (Some employeeId) w"

definition notifyOutsideZone :: "nat \<Rightarrow> world \<Rightarrow> nat outcome" where
  "notifyOutsideZone employeeId w = createNotification NotifOutsideZone (Some employeeId) w"

definition notifyEarlyCheckout :: "nat \<Rightarrow> world \<Rightarrow> nat outcome" where
  "notifyEarlyCheckout employeeId w = createNotification NotifEarlyCheckout (Some employeeId) w"

section \<open>Geofence evaluator (db.ts)\<close>

definition toRad :: "real \<Rightarrow> real" where
  "toRad deg = deg * (pi / 180)"

text \<open>\<open>Math.atan2\<close> on real numbers.\<close>

definition atan2 :: "real \<Rightarrow> real \<Rightarrow> real" where
  "atan2 y x =
     (if 0 < x then arctan (y / x)
      else if x < 0 then (if 0 \<le> y then arctan (y / x) + pi else arctan (y / x) - pi)
      else if 0 < y then pi / 2
      else if y < 0 then - (pi / 2)
      else 0)"

definition calculateDistance :: "real \<Rightarrow> real \<Rightarrow> real \<Rightarrow> real \<Rightarrow> real" where
  "calculateDistance lat1 lon1 lat2 lon2 =
     (let R = 6371000;
          dLat = toRad (lat2 - lat1);
          dLon = toRad (lon2 - lon1);
          a = sin (dLat / 2) * sin (dLat / 2)
              + cos (toRad lat1) * cos (toRad lat2) * sin (dLon / 2) * sin (dLon / 2);
          c = 2 * atan2 (sqrt a) (sqrt (1 - a))
      in R * c)"

record zone_check =
  inZone :: bool
  zoneName :: "string option"

fun zoneLoop :: "real \<Rightarrow> real \<Rightarrow> work_zone list \<Rightarrow> zone_check" where
  "zoneLoop latitude longitude [] = \<lparr>inZone = False, zoneName = None\<rparr>"
| "zoneLoop latitude longitude (zone # zones) =
     (if calculateDistance latitude longitude (z_latitude zone) (z_longitude zone)
           \<le> real_of_int (radiusMeters zone)
      then \<lparr>inZone = True, zoneName = Some (z_name zone)\<rparr>
      else zoneLoop latitude longitude zones)"

definition isLocationInWorkZone :: "real \<Rightarrow> real \<Rightarrow> world \<Rightarrow> zone_check" where
  "isLocationInWorkZone latitude longitude w = zoneLoop latitude longitude (getActiveWorkZones w)"

section \<open>Check-in (routers.ts, attendance.checkInByCode and attendance.checkIn)\<close>

text \<open>
  \<open>settings.workStartTime.split(':').map(Number)\<close>. \<open>Number\<close> is modelled on strings of
  decimal digits (the empty string is 0, as in JavaScript); any other string is NaN here,
  \<open>None\<close>. Signs, fractions, exponents, hexadecimal and surrounding white space, which
  \<open>Number\<close> also reads, are not modelled: \<open>work.updateSettings\<close> only stores strings that match
  \<open>^\d{2}:\d{2}$\<close>.
\<close>

fun splitColon :: "string \<Rightarrow> string list" where
  "splitColon [] = [[]]"
| "splitColon (c # cs) =
     (if c = CHR '':'' then [] # splitColon cs
      else (case splitColon cs of p # ps \<Rightarrow> (c # p) # ps | [] \<Rightarrow> [[c]]))"

definition digitValue :: "char \<Rightarrow> int option" where
  "digitValue c =
     (let n = (of_char c :: nat) in if 48 \<le> n \<and> n \<le> 57 then Some (int n - 48) else None)"

fun digitsValue :: "int \<Rightarrow> string \<Rightarrow> int option" where
  "digitsValue acc [] = Some acc"
| "digitsValue acc (c # cs) =
     (case digitValue c of None \<Rightarrow> None | Some d \<Rightarrow> digitsValue (acc * 10 + d) cs)"

definition Number :: "string \<Rightarrow> int option" where
  "Number s = digitsValue 0 s"

text \<open>Array destructuring: a missing element is \<open>undefined\<close>, which is NaN in arithmetic.\<close>

definition element :: "int option list \<Rightarrow> nat \<Rightarrow> int option" where
  "element xs i = (if i < length xs then xs ! i else None)"

definition getUTCHours :: "int \<Rightarrow> int" where
  "getUTCHours t = (t div 3600000) mod 24"

definition getUTCMinutes :: "int \<Rightarrow> int" where
  "getUTCMinutes t = (t div 60000) mod 60"

text \<open>
  The block \<open>if (settings) { ... }\<close>: whether \<open>currentTotalMinutes > lateThresholdMinutes\<close>.
  A comparison with NaN is false.
\<close>

definition isLate :: "work_settings \<Rightarrow> int \<Rightarrow> bool" where
  "isLate settings now =
     (let parts = map Number (splitColon (workStartTime settings));
          startHour = element parts 0;
          startMin = element parts 1;
          localTime = now + (3 * 60 * 60 * 1000);
          currentHour = getUTCHours localTime;
          currentMin = getUTCMinutes localTime;
          currentTotalMinutes = currentHour * 60 + currentMin
      in (case (startHour, startMin) of
            (Some h, Some m) \<Rightarrow>
              currentTotalMinutes > h * 60 + m + lateThresholdMinutes settings
          | _ \<Rightarrow> False))"

record checkin_result =
  cr_status :: attendance_status
  cr_recordId :: nat

text \<open>
  The statements from \<open>const existing = await db.getTodayAttendance(employee.id)\<close> to the end
  are the same in \<open>checkInByCode\<close> (lines 401-475) and in \<open>checkIn\<close> (lines 576-653): the
  already-checked-in guard, the geofence gate, the lateness decision and the write.
\<close>

definition persistCheckIn ::
  "int \<Rightarrow> employee \<Rightarrow> real \<Rightarrow> real \<Rightarrow> biometric \<Rightarrow> attendance_record option
     \<Rightarrow> attendance_status \<Rightarrow> world \<Rightarrow> checkin_result outcome" where
  "persistCheckIn now emp latitude longitude method existing status w =
     (case existing of
        Some ex \<Rightarrow>
          (Inr \<lparr>cr_status = status, cr_recordId = a_id ex\<rparr>,
           updateAttendanceRecord (a_id ex)
             (\<lambda>r. r\<lparr>checkInTime := Some now,
                     checkInLatitude := Some latitude,
                     checkInLongitude := Some longitude,
                     checkInMethod := Some method,
                     a_status := status\<rparr>) w)
      | None \<Rightarrow>
          (let (recordId, w') = createAttendanceRecord
                 \<lparr>a_id = 0, a_employeeId = e_id emp, a_date = today now,
                  checkInTime = Some now, checkOutTime = None,
                  checkInLatitude = Some latitude, checkInLongitude = Some longitude,
                  checkOutLatitude = None, checkOutLongitude = None,
                  checkInMethod = Some method, checkOutMethod = None,
                  a_status = status\<rparr> w
           in (Inr \<lparr>cr_status = status, cr_recordId = recordId\<rparr>, w')))"

definition decideStatus :: "int \<Rightarrow> employee \<Rightarrow> world \<Rightarrow> attendance_status outcome" where
  "decideStatus now emp w =
     (case getWorkSettings w of
        None \<Rightarrow> (Inr Present, w)
      | Some settings \<Rightarrow>
          if isLate settings now
          then andThen (notifyLateArrival (e_id emp) w) (\<lambda>_ w'. (Inr Late, w'))
          else (Inr Present, w))"

definition checkInFromExisting ::
  "int \<Rightarrow> employee \<Rightarrow> real \<Rightarrow> real \<Rightarrow> biometric \<Rightarrow> world \<Rightarrow> checkin_result outcome" where
  "checkInFromExisting now emp latitude longitude method w =
     (let existing = getTodayAttendance w (e_id emp) now
      in if (case existing of None \<Rightarrow> False | Some ex \<Rightarrow> checkInTime ex \<noteq> None)
         then (Inl AlreadyCheckedIn, w)
         else
           (let locationCheck = isLocationInWorkZone latitude longitude w;
                activeZones = getActiveWorkZones w;
                hasActiveZones = (length activeZones > 0)
            in if hasActiveZones \<and> \<not> inZone locationCheck
               then andThen (notifyOutsideZone (e_id emp) w) (\<lambda>_ w'. (Inl OutsideWorkZone, w'))
               else andThen (decideStatus now emp w)
                      (\<lambda>status w'.
                          persistCheckIn now emp latitude longitude method existing status w')))"

record checkin_code_input =
  ci_employeeCode :: string
  ci_latitude :: real
  ci_longitude :: real
  ci_method :: biometric
  ci_deviceId :: "string option"

text \<open>The block \<open>if (input.deviceId) { ... }\<close> of \<open>checkInByCode\<close>.\<close>

definition checkInDeviceGuard :: "int \<Rightarrow> employee \<Rightarrow> string option \<Rightarrow> world \<Rightarrow> unit outcome" where
  "checkInDeviceGuard now emp deviceId w =
     (if truthy deviceId
      then (let deviceCheck = checkEmployeeDevice w (e_id emp) (the deviceId)
            in if \<not> isRegistered deviceCheck
               then (Inr (), registerEmployeeDevice now (e_id emp) (the deviceId) w)
               else if \<not> isMatch deviceCheck
               then andThen (createNotification NotifDeviceMismatch (Some (e_id emp)) w)
                      (\<lambda>_ w'. (Inl DeviceUnauthorized, w'))
               else (Inr (), w))
      else (Inr (), w))"

definition checkInByCode :: "int \<Rightarrow> checkin_code_input \<Rightarrow> world \<Rightarrow> checkin_result outcome" where
  "checkInByCode now input w =
     (case getEmployeeByCode w (ci_employeeCode input) of
        None \<Rightarrow> (Inl EmployeeNotFound, w)
      | Some emp \<Rightarrow>
          andThen (checkInDeviceGuard now emp (ci_deviceId input) w)
            (\<lambda>_ w'. checkInFromExisting now emp (ci_latitude input) (ci_longitude input)
                       (ci_method input) w'))"

record attendance_input =
  ai_latitude :: real
  ai_longitude :: real
  ai_method :: biometric

text \<open>The two \<open>Verify biometric method is registered\<close> guards of \<open>checkIn\<close> and \<open>checkOut\<close>.\<close>

definition biometricGuard :: "employee \<Rightarrow> biometric \<Rightarrow> error option" where
  "biometricGuard emp method =
     (if method = Fingerprint \<and> fingerprintEnabled emp \<noteq> Some True
      then Some FingerprintNotRegistered
      else if method = Face \<and> \<not> truthy (faceDataId emp)
      then Some FaceNotRegistered
      else None)"

definition checkIn :: "int \<Rightarrow> nat \<Rightarrow> attendance_input \<Rightarrow> world \<Rightarrow> checkin_result outcome" where
  "checkIn now userId input w =
     (case getEmployeeByUserId w userId of
        None \<Rightarrow> (Inl EmployeeNotFound, w)
      | Some emp \<Rightarrow>
          (case biometricGuard emp (ai_method input) of
             Some e \<Rightarrow> (Inl e, w)
           | None \<Rightarrow> checkInFromExisting now emp (ai_latitude input) (ai_longitude input)
                       (ai_method input) w))"

section \<open>Check-out (routers.ts, attendance.checkOutByCode and attendance.checkOut)\<close>

text \<open>JavaScript truthiness of a nullable number: \<open>null\<close> and \<open>0\<close> are falsy.\<close>

definition truthyNumber :: "nat option \<Rightarrow> bool" where
  "truthyNumber n = (case n of None \<Rightarrow> False | Some k \<Rightarrow> k \<noteq> 0)"

definition checkOutUpdate ::
  "int \<Rightarrow> real \<Rightarrow> real \<Rightarrow> biometric \<Rightarrow> attendance_record \<Rightarrow> attendance_record" where
  "checkOutUpdate now latitude longitude method r =
     r\<lparr>checkOutTime := Some now,
       checkOutLatitude := Some latitude,
       checkOutLongitude := Some longitude,
       checkOutMethod := Some method\<rparr>"

definition checkOutByCode :: "int \<Rightarrow> checkin_code_input \<Rightarrow> world \<Rightarrow> nat outcome" where
  "checkOutByCode now input w =
     (case getEmployeeByCode w (ci_employeeCode input) of
        None \<Rightarrow> (Inl EmployeeNotFound, w)
      | Some emp \<Rightarrow>
          andThen
            (if truthy (ci_deviceId input)
             then (let deviceCheck = checkEmployeeDevice w (e_id emp) (the (ci_deviceId input))
                   in if isRegistered deviceCheck \<and> \<not> isMatch deviceCheck
                      then andThen (createNotification NotifDeviceMismatch (Some (e_id emp)) w)
                             (\<lambda>_ w'. (Inl DeviceUnauthorized, w'))
                      else (Inr (), w))
             else (Inr (), w))
            (\<lambda>_ w1.
               (case getTodayAttendance w1 (e_id emp) now of
                  None \<Rightarrow> (Inl NoCheckInToday, w1)
                | Some existing \<Rightarrow>
                    if checkInTime existing = None then (Inl NoCheckInToday, w1)
                    else if checkOutTime existing \<noteq> None then (Inl AlreadyCheckedOut, w1)
                    else
                      (let w2 = updateAttendanceRecord (a_id existing)
                                  (checkOutUpdate now (ci_latitude input) (ci_longitude input)
                                     (ci_method input)) w1;
                           w3 = (if truthyNumber (branchId emp)
                                 then caught (createBranchNotification (the (branchId emp))
                                        BranchEmployeeCheckOut (Some (e_id emp)) w2)
                                 else w2);
                           w4 = caught (createNotification NotifEarlyCheckout
                                          (Some (e_id emp)) w3)
                       in (Inr (a_id existing), w4)))))"

text \<open>
  The early-checkout test of \<open>checkOut\<close>. \<open>endTime.setHours(endHour, endMinute, 0, 0)\<close> is
  taken in the server's local time zone, a fixed offset \<open>tz\<close> from UTC in milliseconds;
  \<open>setHours(getHours() - 2)\<close> then moves it two hours back. With a NaN hour or minute the
  date is invalid and \<open>now < twoHoursBeforeEnd\<close> is false.
\<close>

definition isEarlyCheckout :: "int \<Rightarrow> work_settings \<Rightarrow> int \<Rightarrow> bool" where
  "isEarlyCheckout tz settings now =
     (let parts = map Number (splitColon (workEndTime settings));
          endHour = element parts 0;
          endMinute = element parts 1
      in (case (endHour, endMinute) of
            (Some h, Some m) \<Rightarrow>
              (let localMidnight = ((now + tz) div 86400000) * 86400000 - tz;
                   endTime = localMidnight + h * 3600000 + m * 60000;
                   twoHoursBeforeEnd = endTime - 2 * 3600000
               in now < twoHoursBeforeEnd)
          | _ \<Rightarrow> False))"

definition checkOut :: "int \<Rightarrow> int \<Rightarrow> nat \<Rightarrow> attendance_input \<Rightarrow> world \<Rightarrow> unit outcome" where
  "checkOut tz now userId input w =
     (case getEmployeeByUserId w userId of
        None \<Rightarrow> (Inl EmployeeNotFound, w)
      | Some emp \<Rightarrow>
          (case biometricGuard emp (ai_method input) of
             Some e \<Rightarrow> (Inl e, w)
           | None \<Rightarrow>
               (case getTodayAttendance w (e_id emp) now of
                  None \<Rightarrow> (Inl NoCheckInToday, w)
                | Some existing \<Rightarrow>
                    if checkOutTime existing \<noteq> None then (Inl AlreadyCheckedOut, w)
                    else
                      andThen
                        (case getWorkSettings w of
                           None \<Rightarrow> (Inr (), w)
                         | Some settings \<Rightarrow>
                             if workEndTime settings \<noteq> [] \<and> isEarlyCheckout tz settings now
                             then andThen (notifyEarlyCheckout (e_id emp) w)
                                    (\<lambda>_ w'. (Inr (), w'))
                             else (Inr (), w))
                        (\<lambda>_ w1.
                           (Inr (), updateAttendanceRecord (a_id existing)
                                      (checkOutUpdate now (ai_latitude input)
                                         (ai_longitude input) (ai_method input)) w1)))))"

section \<open>Field tasks (db.ts and routers.ts, fieldTask.create and fieldTask.createByCode)\<close>

definition createFieldTask :: "int \<Rightarrow> nat \<Rightarrow> world \<Rightarrow> nat \<times> world" where
  "createFieldTask now employeeId w =
     (let i = nextId (map ft_id (fieldTasks w))
      in (i, w\<lparr>fieldTasks := fieldTasks w
                @ [\<lparr>ft_id = i, ft_employeeId = employeeId, ft_date = today now,
                    ft_startTime = Some now, ft_status = TaskActive\<rparr>]\<rparr>))"

text \<open>
  \<open>orderBy(desc(startTime)).limit(1)\<close>: the row with the greatest start time, a NULL start
  time being the smallest; among rows with the same start time, the first of the table.
\<close>

fun startsBefore :: "int option \<Rightarrow> int option \<Rightarrow> bool" where
  "startsBefore None (Some _) = True"
| "startsBefore (Some a) (Some b) = (a < b)"
| "startsBefore _ None = False"

fun latestTask :: "field_task list \<Rightarrow> field_task option" where
  "latestTask [] = None"
| "latestTask (t # ts) =
     (case latestTask ts of
        None \<Rightarrow> Some t
      | Some u \<Rightarrow> if startsBefore (ft_startTime t) (ft_startTime u) then Some u else Some t)"

definition getActiveFieldTask :: "world \<Rightarrow> nat \<Rightarrow> field_task option" where
  "getActiveFieldTask w employeeId =
     latestTask (filter (\<lambda>t. ft_employeeId t = employeeId \<and> ft_status t = TaskActive)
                   (fieldTasks w))"

definition completeFieldTask :: "nat \<Rightarrow> world \<Rightarrow> world" where
  "completeFieldTask taskId w =
     w\<lparr>fieldTasks := map (\<lambda>t. if ft_id t = taskId then t\<lparr>ft_status := TaskCompleted\<rparr> else t)
                        (fieldTasks w)\<rparr>"

text \<open>
  The branch \<open>if (input.isReturn) { ... }\<close>, the same in both procedures;
  \<open>activeTask?.id || 0\<close> is the id, or 0 when there is no task (or the id is 0).
\<close>

definition returnFromField :: "nat \<Rightarrow> world \<Rightarrow> nat outcome" where
  "returnFromField employeeId w =
     (let activeTask = getActiveFieldTask w employeeId
      in (case activeTask of
            Some task \<Rightarrow> (Inr (if ft_id task \<noteq> 0 then ft_id task else 0),
                          completeFieldTask (ft_id task) w)
          | None \<Rightarrow> (Inr 0, w)))"

definition fieldTask_create :: "int \<Rightarrow> nat \<Rightarrow> bool option \<Rightarrow> world \<Rightarrow> nat outcome" where
  "fieldTask_create now employeeId isReturn w =
     (if isReturn = Some True then returnFromField employeeId w
      else
        (let (i, w1) = createFieldTask now employeeId w
         in (case getEmployeeById w1 employeeId of
               None \<Rightarrow> (Inr i, w1)
             | Some emp \<Rightarrow>
                 andThen (createNotification NotifSystem (Some employeeId) w1)
                   (\<lambda>_ w2.
                      andThen
                        (if truthyNumber (branchId emp)
                         then createBranchNotification (the (branchId emp)) BranchGeneral
                                (Some employeeId) w2
                         else (Inr 0, w2))
                        (\<lambda>_ w3. (Inr i, w3))))))"

definition fieldTask_createByCode :: "int \<Rightarrow> string \<Rightarrow> bool option \<Rightarrow> world \<Rightarrow> nat outcome" where
  "fieldTask_createByCode now code isReturn w =
     (case getEmployeeByCode w code of
        None \<Rightarrow> (Inl EmployeeNotFound, w)
      | Some emp \<Rightarrow>
          if isReturn = Some True then returnFromField (e_id emp) w
          else
            (let (i, w1) = createFieldTask now (e_id emp) w
             in andThen (createNotification NotifSystem (Some (e_id emp)) w1)
                  (\<lambda>_ w2.
                     andThen
                       (if truthyNumber (branchId emp)
                        then createBranchNotification (the (branchId emp)) BranchGeneral
                               (Some (e_id emp)) w2
                        else (Inr 0, w2))
                       (\<lambda>_ w3. (Inr i, w3)))))"

section \<open>Leave balance ledger (db.ts)\<close>

text \<open>
  \<open>year\<close> is \<open>new Date().getFullYear()\<close>. The schema declares \<open>leave_balances.employeeId\<close>
  unique, so the insert of a second row for an employee (a row of another year exists)
  is rejected by the store.
\<close>

definition getOrCreateLeaveBalance :: "int \<Rightarrow> nat \<Rightarrow> world \<Rightarrow> leave_balance outcome" where
  "getOrCreateLeaveBalance year employeeId w =
     (case find (\<lambda>b. lb_employeeId b = employeeId \<and> lb_year b = year) (leaveBalances w) of
        Some existing \<Rightarrow> (Inr existing, w)
      | None \<Rightarrow>
          if list_ex (\<lambda>b. lb_employeeId b = employeeId) (leaveBalances w)
          then (Inl DatabaseError, w)
          else (let newBalance =
                      \<lparr>lb_id = nextId (map lb_id (leaveBalances w)),
                       lb_employeeId = employeeId, lb_year = year,
                       annualBalance = 21, sickBalance = 10, emergencyBalance = 5,
                       usedAnnual = 0, usedSick = 0, usedEmergency = 0\<rparr>
                in (Inr newBalance, w\<lparr>leaveBalances := leaveBalances w @ [newBalance]\<rparr>)))"

definition updateLeaveBalance :: "int \<Rightarrow> nat \<Rightarrow> leave_type \<Rightarrow> int \<Rightarrow> world \<Rightarrow> unit outcome" where
  "updateLeaveBalance year employeeId leaveType days w =
     (if leaveType = Unpaid then (Inr (), w)
      else andThen (getOrCreateLeaveBalance year employeeId w)
             (\<lambda>balance w'.
                (Inr (),
                 w'\<lparr>leaveBalances :=
                      map (\<lambda>b. if lb_id b = lb_id balance
                                then (case leaveType of
                                        Annual \<Rightarrow> b\<lparr>usedAnnual := usedAnnual balance + days\<rparr>
                                      | Sick \<Rightarrow> b\<lparr>usedSick := usedSick balance + days\<rparr>
                                      | Emergency \<Rightarrow>
                                          b\<lparr>usedEmergency := usedEmergency balance + days\<rparr>
                                      | Unpaid \<Rightarrow> b)
                                else b) (leaveBalances w')\<rparr>)))"

record balance_line =
  total :: int
  used :: int
  remaining :: int

record balance_summary =
  annual :: balance_line
  sick :: balance_line
  emergency :: balance_line

definition getLeaveBalance :: "int \<Rightarrow> nat \<Rightarrow> world \<Rightarrow> balance_summary outcome" where
  "getLeaveBalance year employeeId w =
     andThen (getOrCreateLeaveBalance year employeeId w)
       (\<lambda>balance w'.
          (Inr \<lparr>annual = \<lparr>total = annualBalance balance, used = usedAnnual balance,
                          remaining = annualBalance balance - usedAnnual balance\<rparr>,
                sick = \<lparr>total = sickBalance balance, used = usedSick balance,
                        remaining = sickBalance balance - usedSick balance\<rparr>,
                emergency = \<lparr>total = emergencyBalance balance, used = usedEmergency balance,
                             remaining = emergencyBalance balance - usedEmergency balance\<rparr>\<rparr>,
           w'))"

definition createLeaveRequest ::
  "nat \<Rightarrow> leave_type \<Rightarrow> int \<Rightarrow> int \<Rightarrow> int \<Rightarrow> world \<Rightarrow> nat \<times> world" where
  "createLeaveRequest employeeId leaveType startDate endDate days w =
     (let i = nextId (map lr_id (leaveRequests w))
      in (i, w\<lparr>leaveRequests := leaveRequests w
                @ [\<lparr>lr_id = i, lr_employeeId = employeeId, lr_leaveType = leaveType,
                    lr_startDate = startDate, lr_endDate = endDate, totalDays = days,
                    lr_status = Pending, reviewedBy = None, reviewedAt = None,
                    rejectionReason = None\<rparr>]\<rparr>))"

definition getLeaveRequestById :: "world \<Rightarrow> nat \<Rightarrow> leave_request option" where
  "getLeaveRequestById w i = find (\<lambda>r. lr_id r = i) (leaveRequests w)"

text \<open>
  The \<open>updateData\<close> object of \<open>updateLeaveRequestStatus\<close> applied to a row: status, reviewer
  and review time, and the rejection reason when the status is rejected and a non-empty
  reason is given.
\<close>

definition statusUpdate ::
  "leave_status \<Rightarrow> nat \<Rightarrow> int \<Rightarrow> string option \<Rightarrow> leave_request \<Rightarrow> leave_request" where
  "statusUpdate status reviewer now reason r =
     (let r' = r\<lparr>lr_status := status, reviewedBy := Some reviewer, reviewedAt := Some now\<rparr>
      in if status = Rejected \<and> truthy reason then r'\<lparr>rejectionReason := reason\<rparr> else r')"

definition updateLeaveRequestStatus ::
  "int \<Rightarrow> int \<Rightarrow> nat \<Rightarrow> leave_status \<Rightarrow> nat \<Rightarrow> string option \<Rightarrow> world \<Rightarrow> unit outcome" where
  "updateLeaveRequestStatus year now i status reviewer reason w =
     (let w1 = w\<lparr>leaveRequests :=
                   map (\<lambda>r. if lr_id r = i then statusUpdate status reviewer now reason r
                             else r) (leaveRequests w)\<rparr>
      in if status = Approved
         then (case getLeaveRequestById w1 i of
                 Some request \<Rightarrow>
                   updateLeaveBalance year (lr_employeeId request) (lr_leaveType request)
                     (totalDays request) w1
               | None \<Rightarrow> (Inr (), w1))
         else (Inr (), w1))"

section \<open>Leave procedures (routers.ts, leave.create, leave.approve, leave.reject)\<close>

text \<open>
  \<open>startDate\<close> and \<open>endDate\<close> stand for \<open>new Date(input.startDate).getTime()\<close> and
  \<open>new Date(input.endDate).getTime()\<close>, epoch milliseconds; a string that matches the
  input pattern and parses to an invalid date (NaN) is not represented. A date-only string
  parses to UTC midnight, a multiple of 86400000, for which the division of
  \<open>computeTotalDays\<close> is exact in doubles as it is here on the reals.
\<close>

record leave_input =
  li_employeeCode :: string
  li_leaveType :: leave_type
  li_startDate :: int
  li_endDate :: int

definition computeTotalDays :: "int \<Rightarrow> int \<Rightarrow> int" where
  "computeTotalDays startMs endMs =
     (let diffTime = \<bar>endMs - startMs\<bar>
      in \<lceil>real_of_int diffTime / (1000 * 60 * 60 * 24)\<rceil> + 1)"

definition balanceKey :: "leave_type \<Rightarrow> balance_summary \<Rightarrow> balance_line" where
  "balanceKey leaveType balance =
     (case leaveType of Annual \<Rightarrow> annual balance | Sick \<Rightarrow> sick balance
      | Emergency \<Rightarrow> emergency balance | Unpaid \<Rightarrow> annual balance)"

definition leave_create :: "int \<Rightarrow> leave_input \<Rightarrow> world \<Rightarrow> nat outcome" where
  "leave_create year input w =
     (case getEmployeeByCode w (li_employeeCode input) of
        None \<Rightarrow> (Inl EmployeeNotFound, w)
      | Some emp \<Rightarrow>
          (let days = computeTotalDays (li_startDate input) (li_endDate input)
           in andThen
                (if li_leaveType input \<noteq> Unpaid
                 then andThen (getLeaveBalance year (e_id emp) w)
                        (\<lambda>balance w'.
                           if remaining (balanceKey (li_leaveType input) balance) < days
                           then (Inl (InsufficientBalance
                                        (remaining (balanceKey (li_leaveType input) balance))),
                                 w')
                           else (Inr (), w'))
                 else (Inr (), w))
                (\<lambda>_ w1.
                   (let (requestId, w2) =
                          createLeaveRequest (e_id emp) (li_leaveType input)
                            (li_startDate input) (li_endDate input) days w1;
                        w3 = (if truthyNumber (branchId emp)
                              then caught (createBranchNotification (the (branchId emp))
                                     BranchGeneral (Some (e_id emp)) w2)
                              else w2);
                        w4 = caught (createNotification NotifSystem (Some (e_id emp)) w3)
                    in (Inr requestId, w4)))))"

text \<open>The reviewer and request guards shared by \<open>leave.approve\<close> and \<open>leave.reject\<close>.\<close>

definition reviewGuards :: "world \<Rightarrow> nat \<Rightarrow> string \<Rightarrow> error + (employee \<times> leave_request)" where
  "reviewGuards w requestId reviewerCode =
     (case getEmployeeByCode w reviewerCode of
        None \<Rightarrow> Inl ReviewerUnauthorized
      | Some reviewer \<Rightarrow>
          if e_role reviewer \<noteq> RoleBranchManager \<and> e_role reviewer \<noteq> RoleAdmin
          then Inl ReviewerUnauthorized
          else (case getLeaveRequestById w requestId of
                  None \<Rightarrow> Inl RequestNotFound
                | Some request \<Rightarrow>
                    if lr_status request \<noteq> Pending then Inl AlreadyDecided
                    else Inr (reviewer, request)))"

definition notifyDecision :: "leave_request \<Rightarrow> world \<Rightarrow> unit outcome" where
  "notifyDecision request w =
     (case getEmployeeById w (lr_employeeId request) of
        None \<Rightarrow> (Inr (), w)
      | Some emp \<Rightarrow>
          if truthyNumber (branchId emp)
          then andThen (createBranchNotification (the (branchId emp)) BranchGeneral
                          (Some (e_id emp)) w)
                 (\<lambda>_ w'. (Inr (), w'))
          else (Inr (), w))"

definition leave_approve :: "int \<Rightarrow> int \<Rightarrow> nat \<Rightarrow> string \<Rightarrow> world \<Rightarrow> unit outcome" where
  "leave_approve year now requestId reviewerCode w =
     (case reviewGuards w requestId reviewerCode of
        Inl e \<Rightarrow> (Inl e, w)
      | Inr (reviewer, request) \<Rightarrow>
          andThen (updateLeaveRequestStatus year now requestId Approved (e_id reviewer) None w)
            (\<lambda>_ w'. notifyDecision request w'))"

definition leave_reject :: "int \<Rightarrow> int \<Rightarrow> nat \<Rightarrow> string \<Rightarrow> string \<Rightarrow> world \<Rightarrow> unit outcome" where
  "leave_reject year now requestId reviewerCode reason w =
     (case reviewGuards w requestId reviewerCode of
        Inl e \<Rightarrow> (Inl e, w)
      | Inr (reviewer, request) \<Rightarrow>
          andThen (updateLeaveRequestStatus year now requestId Rejected (e_id reviewer)
                     (Some reason) w)
            (\<lambda>_ w'. notifyDecision request w'))"

text \<open>
  The ledger as a machine: any sequence of requests and decisions within one year, each
  decision with the time at which it is taken.
\<close>

datatype ledger_op =
  RequestLeave leave_input
  | Approve int nat string
  | Reject int nat string string

fun ledgerStep :: "int \<Rightarrow> ledger_op \<Rightarrow> world \<Rightarrow> world" where
  "ledgerStep year (RequestLeave input) w = snd (leave_create year input w)"
| "ledgerStep year (Approve now requestId reviewerCode) w =
     snd (leave_approve year now requestId reviewerCode w)"
| "ledgerStep year (Reject now requestId reviewerCode reason) w =
     snd (leave_reject year now requestId reviewerCode reason w)"

fun ledgerRun :: "int \<Rightarrow> ledger_op list \<Rightarrow> world \<Rightarrow> world" where
  "ledgerRun year [] w = w"
| "ledgerRun year (op # ops) w = ledgerRun year ops (ledgerStep year op w)"

section \<open>The specification's words\<close>

text \<open>
  Minutes since midnight of an instant in the organisation's fixed offset, UTC+3
  (spec 4.3, step 5).
\<close>

definition spec_localMinutesSinceMidnight :: "int \<Rightarrow> int" where
  "spec_localMinutesSinceMidnight now = ((now + 10800000) div 60000) mod 1440"

text \<open>An employee has a field task in "active" status (spec 4.4).\<close>

definition spec_hasActiveTask :: "world \<Rightarrow> nat \<Rightarrow> bool" where
  "spec_hasActiveTask w employeeId =
     list_ex (\<lambda>t. ft_employeeId t = employeeId \<and> ft_status t = TaskActive) (fieldTasks w)"

text \<open>
  A leave request "in pending status" for the given input, with the derived total days
  (spec 4.5, step 3).
\<close>

definition spec_pendingRequest :: "nat \<Rightarrow> nat \<Rightarrow> leave_input \<Rightarrow> leave_request" where
  "spec_pendingRequest i employeeId input =
     \<lparr>lr_id = i, lr_employeeId = employeeId, lr_leaveType = li_leaveType input,
      lr_startDate = li_startDate input, lr_endDate = li_endDate input,
      totalDays = computeTotalDays (li_startDate input) (li_endDate input),
      lr_status = Pending, reviewedBy = None, reviewedAt = None, rejectionReason = None\<rparr>"

text \<open>
  A balance row with "the matching used counter incremented by the total days", nothing
  for unpaid leave (spec 4.5, decide).
\<close>

definition spec_incrementUsed :: "leave_type \<Rightarrow> int \<Rightarrow> leave_balance \<Rightarrow> leave_balance" where
  "spec_incrementUsed leaveType days b =
     (case leaveType of
        Annual \<Rightarrow> b\<lparr>usedAnnual := usedAnnual b + days\<rparr>
      | Sick \<Rightarrow> b\<lparr>usedSick := usedSick b + days\<rparr>
      | Emergency \<Rightarrow> b\<lparr>usedEmergency := usedEmergency b + days\<rparr>
      | Unpaid \<Rightarrow> b)"

section \<open>An example store\<close>

text \<open>
  One employee, code \<open>E1\<close>, linked to user 7, no device bound; the default work settings
  (start 08:00, end 17:00, 15 minutes of grace); no work zone; every other table empty.
\<close>

definition ex_employee :: employee where
  "ex_employee = \<lparr>e_id = 1, e_userId = Some 7, employeeCode = ''E1'', e_role = RoleEmployee,
     branchId = None, faceDataId = None, fingerprintEnabled = None,
     registeredDeviceId = None, deviceRegisteredAt = None\<rparr>"

definition ex_settings :: work_settings where
  "ex_settings = \<lparr>workStartTime = ''08:00'', workEndTime = ''17:00'', lateThresholdMinutes = 15\<rparr>"

definition ex_world :: world where
  "ex_world = \<lparr>employees = [ex_employee], attendanceRecords = [], workSettings = [ex_settings],
     workZones = [], adminNotifications = [], branchNotifications = [], fieldTasks = [],
     leaveRequests = [], leaveBalances = [], notificationInsertFails = False\<rparr>"

definition ex_code_input :: checkin_code_input where
  "ex_code_input = \<lparr>ci_employeeCode = ''E1'', ci_latitude = 0, ci_longitude = 0,
     ci_method = Eye, ci_deviceId = None\<rparr>"

definition ex_input :: attendance_input where
  "ex_input = \<lparr>ai_latitude = 0, ai_longitude = 0, ai_method = Eye\<rparr>"

text \<open>The same store with one active zone of radius 100 m centred at (0, 0).\<close>

definition ex_zone :: work_zone where
  "ex_zone = \<lparr>z_id = 1, z_name = ''HQ'', z_latitude = 0, z_longitude = 0, radiusMeters = 100,
     isActive = True\<rparr>"

definition ex_zone_world :: world where
  "ex_zone_world = ex_world\<lparr>workZones := [ex_zone]\<rparr>"

text \<open>
  The example store with a row of today for the employee that has no check-in time, as
  \<open>addManualAttendance\<close> with a null \<open>checkInTime\<close> leaves it.
\<close>

definition ex_manual_row :: attendance_record where
  "ex_manual_row = \<lparr>a_id = 1, a_employeeId = 1, a_date = 0, checkInTime = None,
     checkOutTime = None, checkInLatitude = None, checkInLongitude = None,
     checkOutLatitude = None, checkOutLongitude = None, checkInMethod = None,
     checkOutMethod = None, a_status = Present\<rparr>"

definition ex_manual_world :: world where
  "ex_manual_world = ex_world\<lparr>attendanceRecords := [ex_manual_row]\<rparr>"

text \<open>The example store with device \<open>D1\<close> bound to the employee, and a check-in from \<open>D2\<close>.\<close>

definition ex_bound_employee :: employee where
  "ex_bound_employee =
     ex_employee\<lparr>registeredDeviceId := Some ''D1'', deviceRegisteredAt := Some 0\<rparr>"

definition ex_bound_world :: world where
  "ex_bound_world = ex_world\<lparr>employees := [ex_bound_employee]\<rparr>"

definition ex_other_device :: checkin_code_input where
  "ex_other_device = ex_code_input\<lparr>ci_deviceId := Some ''D2''\<rparr>"

text \<open>The example store with one active field task of the employee.\<close>

definition ex_task :: field_task where
  "ex_task = \<lparr>ft_id = 5, ft_employeeId = 1, ft_date = 0, ft_startTime = Some 100,
     ft_status = TaskActive\<rparr>"

definition ex_task_world :: world where
  "ex_task_world = ex_world\<lparr>fieldTasks := [ex_task]\<rparr>"

text \<open>
  The example store with a branch manager, code \<open>M1\<close>; requests of annual leave of 21 and
  of 25 days, an unpaid request whose end date is four days before its start date; the
  balance row and the balance summary of first access in 2026; the store after the
  request of 21 days; a run of two such requests, both approved.
\<close>

definition ex_manager :: employee where
  "ex_manager = \<lparr>e_id = 2, e_userId = None, employeeCode = ''M1'', e_role = RoleBranchManager,
     branchId = None, faceDataId = None, fingerprintEnabled = None,
     registeredDeviceId = None, deviceRegisteredAt = None\<rparr>"

definition ex_ledger :: world where
  "ex_ledger = ex_world\<lparr>employees := [ex_employee, ex_manager]\<rparr>"

definition ex_leave21 :: leave_input where
  "ex_leave21 = \<lparr>li_employeeCode = ''E1'', li_leaveType = Annual, li_startDate = 0,
     li_endDate = 1728000000\<rparr>"

definition ex_leave25 :: leave_input where
  "ex_leave25 = \<lparr>li_employeeCode = ''E1'', li_leaveType = Annual, li_startDate = 0,
     li_endDate = 2073600000\<rparr>"

definition ex_reversed :: leave_input where
  "ex_reversed = \<lparr>li_employeeCode = ''E1'', li_leaveType = Unpaid, li_startDate = 345600000,
     li_endDate = 0\<rparr>"

definition ex_fresh_balance :: leave_balance where
  "ex_fresh_balance = \<lparr>lb_id = 1, lb_employeeId = 1, lb_year = 2026, annualBalance = 21,
     sickBalance = 10, emergencyBalance = 5, usedAnnual = 0, usedSick = 0, usedEmergency = 0\<rparr>"

definition ex_fresh_summary :: balance_summary where
  "ex_fresh_summary = \<lparr>annual = \<lparr>total = 21, used = 0, remaining = 21\<rparr>,
     sick = \<lparr>total = 10, used = 0, remaining = 10\<rparr>,
     emergency = \<lparr>total = 5, used = 0, remaining = 5\<rparr>\<rparr>"

definition ex_pending :: world where
  "ex_pending = snd (leave_create 2026 ex_leave21 ex_ledger)"

definition ex_overdraw :: "ledger_op list" where
  "ex_overdraw = [RequestLeave ex_leave21, RequestLeave ex_leave21, Approve 0 1 ''M1'',
     Approve 0 2 ''M1'']"

section \<open>Order on the states of the ledger\<close>

text \<open>
  A balance row keeps its identity and its balances, and none of its used counters is
  smaller afterwards.
\<close>

definition rowLe :: "leave_balance \<Rightarrow> leave_balance \<Rightarrow> bool" where
  "rowLe b b' =
     (lb_id b' = lb_id b \<and> lb_employeeId b' = lb_employeeId b \<and> lb_year b' = lb_year b
      \<and> annualBalance b' = annualBalance b \<and> sickBalance b' = sickBalance b
      \<and> emergencyBalance b' = emergencyBalance b
      \<and> usedAnnual b \<le> usedAnnual b' \<and> usedSick b \<le> usedSick b'
      \<and> usedEmergency b \<le> usedEmergency b')"

text \<open>
  "used* values are monotonically non-decreasing" between two states of the store (spec 3):
  every balance row of the first state is still there in the second, at the same place,
  with used counters that are not smaller.
\<close>

definition spec_usedNonDecreasing :: "world \<Rightarrow> world \<Rightarrow> bool" where
  "spec_usedNonDecreasing w w' =
     list_all2 rowLe (leaveBalances w) (take (length (leaveBalances w)) (leaveBalances w'))"

text \<open>
  What every state of a run keeps: the ids of the balance rows are a key, and no request
  has negative total days.
\<close>

definition ledgerInv :: "world \<Rightarrow> bool" where
  "ledgerInv w = (distinct (map lb_id (leaveBalances w))
                  \<and> list_all (\<lambda>r. 0 \<le> totalDays r) (leaveRequests w))"

text \<open>
  The ledger of the example store at the turn of a year: the employee's only balance row
  is the one of 2025, with nothing used; a request of one day of annual leave; the store
  after that request was made in 2025.
\<close>

definition ex_stale_balance :: leave_balance where
  "ex_stale_balance = \<lparr>lb_id = 1, lb_employeeId = 1, lb_year = 2025, annualBalance = 21,
     sickBalance = 10, emergencyBalance = 5, usedAnnual = 0, usedSick = 0, usedEmergency = 0\<rparr>"

definition ex_stale_ledger :: world where
  "ex_stale_ledger = ex_ledger\<lparr>leaveBalances := [ex_stale_balance]\<rparr>"

definition ex_leave1 :: leave_input where
  "ex_leave1 = \<lparr>li_employeeCode = ''E1'', li_leaveType = Annual, li_startDate = 0,
     li_endDate = 0\<rparr>"

definition ex_carried :: world where
  "ex_carried = snd (leave_create 2025 ex_leave1 ex_stale_ledger)"

section \<open>Basic facts\<close>

lemmas ex_defs = ex_employee_def ex_settings_def ex_world_def ex_code_input_def ex_input_def

lemmas checkIn_defs = checkInByCode_def checkIn_def checkInFromExisting_def
  checkInDeviceGuard_def decideStatus_def persistCheckIn_def andThen_def getEmployeeByCode_def
  getEmployeeByUserId_def getEmployeeById_def getTodayAttendance_def getWorkSettings_def
  getActiveWorkZones_def isLocationInWorkZone_def isLate_def Number_def element_def
  digitValue_def getUTCHours_def getUTCMinutes_def notifyLateArrival_def notifyOutsideZone_def
  createNotification_def createAttendanceRecord_def updateAttendanceRecord_def nextId_def
  today_def truthy_def biometricGuard_def checkEmployeeDevice_def registerEmployeeDevice_def
  Let_def

lemma nextId_fresh: "nextId ids \<notin> set ids"
proof -
  have "x \<in> set ids \<Longrightarrow> x \<le> foldr max ids 0" for x
    by (induction ids) (auto simp: max_def)
  then show ?thesis by (fastforce simp: nextId_def)
qed

lemma find_append_new: "find P xs = None \<Longrightarrow> P y \<Longrightarrow> find P (xs @ [y]) = Some y"
  by (induction xs) (auto split: if_splits)

lemma find_Some_mem: "find P xs = Some x \<Longrightarrow> x \<in> set xs \<and> P x"
  by (induction xs) (auto split: if_splits)

lemma find_map_upd:
  "find P xs = Some x \<Longrightarrow> (\<And>y. P (f y) = P y) \<Longrightarrow> find P (map f xs) = Some (f x)"
  by (induction xs) (auto split: if_splits)

section \<open>Lateness of a check-in\<close>

text \<open>
  Hours times sixty plus minutes, as the procedures compute it from \<open>getUTCHours\<close> and
  \<open>getUTCMinutes\<close>, is the minute of the day.
\<close>

lemma utc_minutes: "getUTCHours t * 60 + getUTCMinutes t = (t div 60000) mod 1440"
proof -
  have a: "t div 3600000 = (t div 60000) div 60"
    by (simp add: zdiv_zmult2_eq[symmetric])
  have "(t div 60000) mod (60 * 24) = 60 * ((t div 60000) div 60 mod 24) + (t div 60000) mod 60"
    by (rule zmod_zmult2_eq) simp
  then show ?thesis
    by (simp add: getUTCHours_def getUTCMinutes_def a)
qed

lemma digitValue_not_colon: "digitValue c = Some v \<Longrightarrow> c \<noteq> CHR '':''"
  by (auto simp: digitValue_def Let_def split: if_splits)

lemma parse_hhmm:
  assumes "digitValue h1 = Some a" "digitValue h2 = Some b"
    "digitValue m1 = Some c" "digitValue m2 = Some d"
  shows "map Number (splitColon [h1, h2, CHR '':'', m1, m2])
           = [Some (a * 10 + b), Some (c * 10 + d)]"
  using assms digitValue_not_colon[OF assms(1)] digitValue_not_colon[OF assms(2)]
    digitValue_not_colon[OF assms(3)] digitValue_not_colon[OF assms(4)]
  by (simp add: Number_def)

lemma isLate_iff:
  assumes "workStartTime s = [h1, h2, CHR '':'', m1, m2]"
    "digitValue h1 = Some a" "digitValue h2 = Some b"
    "digitValue m1 = Some c" "digitValue m2 = Some d"
  shows "isLate s now \<longleftrightarrow>
     spec_localMinutesSinceMidnight now
       > (a * 10 + b) * 60 + (c * 10 + d) + lateThresholdMinutes s"
  using parse_hhmm[OF assms(2-5)] utc_minutes[of "now + 10800000"]
  by (simp add: isLate_def assms(1) element_def spec_localMinutesSinceMidnight_def Let_def)

lemma decideStatus_Inr:
  "decideStatus now emp w = (Inr st, w') \<Longrightarrow>
     st = (case getWorkSettings w of None \<Rightarrow> Present
           | Some s \<Rightarrow> if isLate s now then Late else Present)
     \<and> attendanceRecords w' = attendanceRecords w"
  by (auto simp: decideStatus_def andThen_def notifyLateArrival_def createNotification_def Let_def
      split: option.splits if_splits prod.splits sum.splits)

lemma persistCheckIn_stored:
  assumes "persistCheckIn now emp lat lon m existing st w = (res, w')"
    and "existing = None \<or> existing \<in> Some ` set (attendanceRecords w)"
  shows "\<exists>r rec. res = Inr r \<and> cr_status r = st
           \<and> find (\<lambda>x. a_id x = cr_recordId r) (attendanceRecords w') = Some rec
           \<and> a_status rec = st \<and> checkInTime rec = Some now"
proof (cases existing)
  case None
  let ?i = "nextId (map a_id (attendanceRecords w))"
  have "find (\<lambda>x. a_id x = ?i) (attendanceRecords w) = None"
    using nextId_fresh[of "map a_id (attendanceRecords w)"] by (force simp: find_None_iff)
  then show ?thesis using assms(1) None
    by (auto simp: persistCheckIn_def createAttendanceRecord_def Let_def find_append_new)
next
  case (Some ex)
  then have "ex \<in> set (attendanceRecords w)" using assms(2) by auto
  then obtain x where x: "find (\<lambda>x. a_id x = a_id ex) (attendanceRecords w) = Some x"
    by (cases "find (\<lambda>x. a_id x = a_id ex) (attendanceRecords w)") (auto simp: find_None_iff)
  then have xid: "a_id x = a_id ex" by (auto simp: find_Some_iff)
  show ?thesis using assms(1) Some x xid
    apply (clarsimp simp: persistCheckIn_def updateAttendanceRecord_def)
    apply (subst find_map_upd[OF x])
    by auto
qed

lemma checkInFromExisting_Inr:
  assumes "checkInFromExisting now emp lat lon m w = (Inr r, w')"
  shows "cr_status r = (case getWorkSettings w of None \<Rightarrow> Present
           | Some s \<Rightarrow> if isLate s now then Late else Present)
       \<and> (\<exists>rec. find (\<lambda>x. a_id x = cr_recordId r) (attendanceRecords w') = Some rec
           \<and> a_status rec = cr_status r \<and> checkInTime rec = Some now)"
proof -
  let ?ex = "getTodayAttendance w (e_id emp) now"
  from assms obtain st w1 where d: "decideStatus now emp w = (Inr st, w1)"
    and p: "persistCheckIn now emp lat lon m ?ex st w1 = (Inr r, w')"
    by (auto simp: checkInFromExisting_def Let_def andThen_def notifyOutsideZone_def
        createNotification_def split: if_splits prod.splits sum.splits)
  have ex: "?ex = None \<or> ?ex \<in> Some ` set (attendanceRecords w1)"
    using decideStatus_Inr[OF d]
    by (cases ?ex) (auto simp: getTodayAttendance_def dest: find_Some_mem)
  from persistCheckIn_stored[OF p ex] decideStatus_Inr[OF d] show ?thesis by auto
qed

lemma checkInDeviceGuard_settings:
  "checkInDeviceGuard now emp dev w = (res, w') \<Longrightarrow> workSettings w' = workSettings w"
  by (auto simp: checkInDeviceGuard_def Let_def andThen_def registerEmployeeDevice_def
      createNotification_def split: if_splits prod.splits sum.splits)

text \<open>
  Claim C1. When work settings exist and the work start time is the string \<open>HH:MM\<close> (digits
  \<open>a b : c d\<close>), a check-in that succeeds, through \<open>checkInByCode\<close> or through \<open>checkIn\<close>,
  returns the status "late" if the minute of the day of the current time at UTC+3 is
  strictly greater than \<open>HH * 60 + MM + lateThresholdMinutes\<close>, and "present" otherwise;
  the attendance row it names carries that status and the check-in time.
\<close>

theorem checkIn_status_late_iff:
  assumes "getWorkSettings w = Some settings"
    and "workStartTime settings = [h1, h2, CHR '':'', m1, m2]"
    and "digitValue h1 = Some a" and "digitValue h2 = Some b"
    and "digitValue m1 = Some c" and "digitValue m2 = Some d"
    and "checkInByCode now input w = (Inr r, w') \<or> checkIn now userId input' w = (Inr r, w')"
  shows "cr_status r =
           (if spec_localMinutesSinceMidnight now
                 > (a * 10 + b) * 60 + (c * 10 + d) + lateThresholdMinutes settings
            then Late else Present)
       \<and> (\<exists>rec. find (\<lambda>x. a_id x = cr_recordId r) (attendanceRecords w') = Some rec
             \<and> a_status rec = cr_status r \<and> checkInTime rec = Some now)"
proof -
  from assms(7) obtain emp lat lon m w1 where
    c: "checkInFromExisting now emp lat lon m w1 = (Inr r, w')"
    and s: "workSettings w1 = workSettings w"
  proof
    assume h: "checkInByCode now input w = (Inr r, w')"
    then obtain emp w1 where "checkInDeviceGuard now emp (ci_deviceId input) w = (Inr (), w1)"
      "checkInFromExisting now emp (ci_latitude input) (ci_longitude input) (ci_method input) w1
         = (Inr r, w')"
      by (auto simp: checkInByCode_def andThen_def split: option.splits prod.splits sum.splits)
    then show ?thesis using that checkInDeviceGuard_settings by blast
  next
    assume h: "checkIn now userId input' w = (Inr r, w')"
    then show ?thesis using that
      by (auto simp: checkIn_def split: option.splits)
  qed
  have "getWorkSettings w1 = Some settings" using s assms(1) by (simp add: getWorkSettings_def)
  with checkInFromExisting_Inr[OF c] isLate_iff[OF assms(2-6), of now] show ?thesis
    by (cases "isLate settings now") auto
qed

text \<open>
  With start 08:00 and 15 minutes of grace: a check-in by code at 08:15 local time
  (05:15 UTC) is present, a check-in of the signed-in user at 08:16 is late.
\<close>

theorem checkIn_status_late_iff_witness:
  "getWorkSettings ex_world = Some ex_settings
   \<and> workStartTime ex_settings = [CHR ''0'', CHR ''8'', CHR '':'', CHR ''0'', CHR ''0'']
   \<and> digitValue CHR ''0'' = Some 0 \<and> digitValue CHR ''8'' = Some 8
   \<and> fst (checkInByCode 18900000 ex_code_input ex_world)
       = Inr \<lparr>cr_status = Present, cr_recordId = 1\<rparr>
   \<and> spec_localMinutesSinceMidnight 18900000 = 8 * 60 + 0 + 15
   \<and> fst (checkIn 18960000 7 ex_input ex_world) = Inr \<lparr>cr_status = Late, cr_recordId = 1\<rparr>
   \<and> spec_localMinutesSinceMidnight 18960000 = 8 * 60 + 0 + 16"
proof -
  have s: "getWorkSettings ex_world = Some ex_settings"
    by (simp add: getWorkSettings_def ex_defs)
  have t: "workStartTime ex_settings = [CHR ''0'', CHR ''8'', CHR '':'', CHR ''0'', CHR ''0'']"
    by (simp add: ex_defs)
  have d0: "digitValue CHR ''0'' = Some 0" and d8: "digitValue CHR ''8'' = Some 8"
    by (simp_all add: digitValue_def)
  have m: "spec_localMinutesSinceMidnight 18900000 = 495"
    "spec_localMinutesSinceMidnight 18960000 = 496"
    by (simp_all add: spec_localMinutesSinceMidnight_def)
  obtain r1 w1 where c1: "checkInByCode 18900000 ex_code_input ex_world = (Inr r1, w1)"
    and i1: "cr_recordId r1 = 1"
    by (simp add: ex_defs checkIn_defs)
  obtain r2 w2 where c2: "checkIn 18960000 7 ex_input ex_world = (Inr r2, w2)"
    and i2: "cr_recordId r2 = 1"
    by (simp add: ex_defs checkIn_defs)
  have "cr_status r1 = Present"
    using checkIn_status_late_iff[OF s t d0 d8 d0 d0 disjI1, OF c1] m
    by (simp add: ex_defs)
  moreover have "cr_status r2 = Late"
    using checkIn_status_late_iff[OF s t d0 d8 d0 d0 disjI2, OF c2] m
    by (simp add: ex_defs)
  ultimately show ?thesis using s t d0 d8 m c1 c2 i1 i2 by simp
qed

section \<open>Geofence\<close>

lemma zoneLoop_inZone:
  "inZone (zoneLoop lat lon zs) \<longleftrightarrow>
     (\<exists>z \<in> set zs. calculateDistance lat lon (z_latitude z) (z_longitude z)
                      \<le> real_of_int (radiusMeters z))"
  by (induction zs) auto

lemma zoneLoop_zoneName:
  "zoneName (zoneLoop lat lon zs) =
     map_option z_name
       (find (\<lambda>z. calculateDistance lat lon (z_latitude z) (z_longitude z)
                    \<le> real_of_int (radiusMeters z)) zs)"
  by (induction zs) auto

lemma checkInDeviceGuard_zones:
  "checkInDeviceGuard now emp dev w = (res, w') \<Longrightarrow> workZones w' = workZones w"
  by (auto simp: checkInDeviceGuard_def Let_def andThen_def registerEmployeeDevice_def
      createNotification_def split: if_splits prod.splits sum.splits)

lemma checkInFromExisting_no_zone:
  "getActiveWorkZones w = [] \<Longrightarrow>
     fst (checkInFromExisting now emp lat lon m w) \<noteq> Inl OutsideWorkZone"
  by (auto simp: checkInFromExisting_def Let_def andThen_def decideStatus_def persistCheckIn_def
      notifyLateArrival_def createNotification_def createAttendanceRecord_def
      split: option.splits if_splits prod.splits sum.splits)

lemma checkInDeviceGuard_not_zone:
  "fst (checkInDeviceGuard now emp dev w) \<noteq> Inl OutsideWorkZone"
  by (auto simp: checkInDeviceGuard_def Let_def andThen_def createNotification_def
      split: if_splits prod.splits sum.splits)

lemma checkInByCode_no_zone:
  assumes "getActiveWorkZones w = []"
  shows "fst (checkInByCode now input w) \<noteq> Inl OutsideWorkZone"
proof (cases "getEmployeeByCode w (ci_employeeCode input)")
  case None
  then show ?thesis by (simp add: checkInByCode_def)
next
  case (Some emp)
  obtain res w1 where g: "checkInDeviceGuard now emp (ci_deviceId input) w = (res, w1)"
    by (cases "checkInDeviceGuard now emp (ci_deviceId input) w")
  have z: "getActiveWorkZones w1 = []"
    using checkInDeviceGuard_zones[OF g] assms by (simp add: getActiveWorkZones_def)
  show ?thesis
    using Some g checkInDeviceGuard_not_zone[of now emp "ci_deviceId input" w]
      checkInFromExisting_no_zone[OF z]
    by (cases res) (auto simp: checkInByCode_def andThen_def)
qed

lemma checkIn_no_zone:
  assumes "getActiveWorkZones w = []"
  shows "fst (checkIn now uid input w) \<noteq> Inl OutsideWorkZone"
  using checkInFromExisting_no_zone[OF assms]
  by (auto simp: checkIn_def biometricGuard_def split: option.splits if_splits)

text \<open>
  Between two points of one meridian less than 180 degrees of latitude apart, the
  haversine formula gives the arc length: the Earth radius times the angle in radians.
\<close>

lemma meridian_distance:
  assumes "\<bar>lat2 - lat1\<bar> < 180"
  shows "calculateDistance lat1 lon lat2 lon = 6371000 * \<bar>toRad (lat2 - lat1)\<bar>"
proof -
  define h where "h = \<bar>toRad (lat2 - lat1)\<bar> / 2"
  have hh: "h = \<bar>lat2 - lat1\<bar> * (pi / 360)"
    by (simp add: h_def toRad_def abs_mult)
  have h0: "0 \<le> h" by (simp add: h_def)
  have "\<bar>lat2 - lat1\<bar> * (pi / 360) < 180 * (pi / 360)"
    using assms by (intro mult_strict_right_mono) simp_all
  then have h1: "h < pi / 2" by (simp add: hh)
  have sq: "sin (toRad (lat2 - lat1) / 2) * sin (toRad (lat2 - lat1) / 2) = sin h * sin h"
    by (cases "0 \<le> toRad (lat2 - lat1)") (simp_all add: h_def)
  have s: "0 \<le> sin h" using h0 h1 by (intro sin_ge_zero) (use pi_gt_zero in linarith)+
  have c: "0 < cos h" using h0 h1 by (intro cos_gt_zero_pi) linarith+
  have a: "1 - sin h * sin h = cos h * cos h"
    using sin_cos_squared_add[of h] by (simp add: power2_eq_square algebra_simps)
  have "atan2 (sqrt (sin h * sin h)) (sqrt (1 - sin h * sin h)) = arctan (tan h)"
    using s c by (simp add: a atan2_def tan_def)
  also have "\<dots> = h" using h0 h1 by (intro arctan_tan) linarith+
  finally have at: "atan2 (sqrt (sin h * sin h)) (sqrt (1 - sin h * sin h)) = h" .
  have z: "toRad (lon - lon) = 0" by (simp add: toRad_def)
  have "calculateDistance lat1 lon lat2 lon
          = 6371000 * (2 * atan2 (sqrt (sin h * sin h)) (sqrt (1 - sin h * sin h)))"
    unfolding calculateDistance_def Let_def z sq by simp
  then show ?thesis unfolding at by (simp add: h_def)
qed

lemma distance_same_point: "calculateDistance 0 0 0 0 = 0"
  using meridian_distance[of 0 0 0] by (simp add: toRad_def)

text \<open>Two thousandths of a degree of latitude are more than 200 m, hence more than 100 m.\<close>

lemma distance_north: "calculateDistance (2 / 1000) 0 0 0 > 100"
proof -
  have "calculateDistance (2 / 1000) 0 0 0 = 6371000 * \<bar>toRad (0 - 2 / 1000)\<bar>"
    by (rule meridian_distance) simp
  also have "\<dots> = (6371 / 90) * pi" by (simp add: toRad_def abs_mult)
  finally show ?thesis using pi_ge_two by simp
qed

text \<open>
  Claim C2 as stated fails: with no active zone the evaluator reports the point as
  outside, \<open>inZone = false\<close>.
\<close>

theorem isLocationInWorkZone_empty_counterexample:
  "getActiveWorkZones ex_world = [] \<and> inZone (isLocationInWorkZone 0 0 ex_world) = False"
  by (simp add: isLocationInWorkZone_def getActiveWorkZones_def ex_world_def)

text \<open>
  Claim C2, amended. For every point and every store, \<open>isLocationInWorkZone\<close> reports
  \<open>inZone\<close> exactly when the haversine distance (Earth radius 6,371,000 m) from the point to
  the centre of some active zone is at most that zone's \<open>radiusMeters\<close>, and the zone name
  it reports is that of the first such zone in evaluation order. With no active zone it
  reports \<open>inZone = false\<close> and no name; the point is then not blocked, because neither
  check-in procedure can fail with the outside-work-zone error.
\<close>

theorem isLocationInWorkZone_first_match:
  "inZone (isLocationInWorkZone lat lon w)
     = (\<exists>z \<in> set (getActiveWorkZones w).
          calculateDistance lat lon (z_latitude z) (z_longitude z) \<le> real_of_int (radiusMeters z))
   \<and> zoneName (isLocationInWorkZone lat lon w)
     = map_option z_name
         (find (\<lambda>z. calculateDistance lat lon (z_latitude z) (z_longitude z)
                      \<le> real_of_int (radiusMeters z)) (getActiveWorkZones w))
   \<and> (getActiveWorkZones w = [] \<longrightarrow>
        isLocationInWorkZone lat lon w = \<lparr>inZone = False, zoneName = None\<rparr>
        \<and> fst (checkInByCode now input w) \<noteq> Inl OutsideWorkZone
        \<and> fst (checkIn now userId input' w) \<noteq> Inl OutsideWorkZone)"
  using checkInByCode_no_zone[of w now input] checkIn_no_zone[of w now userId input']
  by (simp add: isLocationInWorkZone_def zoneLoop_inZone zoneLoop_zoneName)

text \<open>
  No zone: not inside, yet the check-in is not blocked. One zone of 100 m at (0, 0): the
  centre is inside, with the zone's name; a point 0.002 degrees north is outside.
\<close>

theorem isLocationInWorkZone_first_match_witness:
  "getActiveWorkZones ex_world = []
   \<and> isLocationInWorkZone 0 0 ex_world = \<lparr>inZone = False, zoneName = None\<rparr>
   \<and> fst (checkInByCode 18900000 ex_code_input ex_world) \<noteq> Inl OutsideWorkZone
   \<and> getActiveWorkZones ex_zone_world = [ex_zone]
   \<and> inZone (isLocationInWorkZone 0 0 ex_zone_world)
   \<and> zoneName (isLocationInWorkZone 0 0 ex_zone_world) = Some ''HQ''
   \<and> \<not> inZone (isLocationInWorkZone (2 / 1000) 0 ex_zone_world)"
proof -
  have e: "getActiveWorkZones ex_world = []"
    by (simp add: getActiveWorkZones_def ex_world_def)
  have z: "getActiveWorkZones ex_zone_world = [ex_zone]"
    by (simp add: getActiveWorkZones_def ex_zone_world_def ex_zone_def)
  show ?thesis
    using isLocationInWorkZone_first_match[of 0 0 ex_world 18900000 ex_code_input 7 ex_input]
      isLocationInWorkZone_first_match[of 0 0 ex_zone_world 18900000 ex_code_input 7 ex_input]
      isLocationInWorkZone_first_match[of "2 / 1000" 0 ex_zone_world 18900000 ex_code_input 7
        ex_input]
      e z distance_same_point distance_north
    by (simp add: ex_zone_def)
qed

section \<open>Check-out guards\<close>

lemmas checkOut_defs = checkOutByCode_def checkOut_def checkOutUpdate_def isEarlyCheckout_def
  notifyEarlyCheckout_def createBranchNotification_def caught_def truthyNumber_def

text \<open>
  \<open>checkOutByCode\<close>, once the employee is found and the device guard has passed, rejects a
  check-out without a check-in and a second check-out, and leaves the store as it was.
\<close>

lemma checkOutByCode_rejections:
  assumes "getEmployeeByCode w (ci_employeeCode input) = Some emp"
    and "\<not> (truthy (ci_deviceId input)
             \<and> isRegistered (checkEmployeeDevice w (e_id emp) (the (ci_deviceId input)))
             \<and> \<not> isMatch (checkEmployeeDevice w (e_id emp) (the (ci_deviceId input))))"
  shows "getTodayAttendance w (e_id emp) now = None
           \<Longrightarrow> checkOutByCode now input w = (Inl NoCheckInToday, w)"
    and "getTodayAttendance w (e_id emp) now = Some ex \<Longrightarrow> checkInTime ex = None
           \<Longrightarrow> checkOutByCode now input w = (Inl NoCheckInToday, w)"
    and "getTodayAttendance w (e_id emp) now = Some ex \<Longrightarrow> checkInTime ex \<noteq> None
           \<Longrightarrow> checkOutTime ex \<noteq> None
           \<Longrightarrow> checkOutByCode now input w = (Inl AlreadyCheckedOut, w)"
  using assms by (auto simp: checkOutByCode_def andThen_def Let_def)

text \<open>
  \<open>checkOut\<close>, once the employee is found and the biometric guard has passed, rejects a
  check-out when there is no row of today and when the row has a check-out time. It has
  no test of the row's check-in time.
\<close>

lemma checkOut_rejections:
  assumes "getEmployeeByUserId w userId = Some emp"
    and "biometricGuard emp (ai_method input) = None"
  shows "getTodayAttendance w (e_id emp) now = None
           \<Longrightarrow> checkOut tz now userId input w = (Inl NoCheckInToday, w)"
    and "getTodayAttendance w (e_id emp) now = Some ex \<Longrightarrow> checkOutTime ex \<noteq> None
           \<Longrightarrow> checkOut tz now userId input w = (Inl AlreadyCheckedOut, w)"
  using assms by (auto simp: checkOut_def)

text \<open>
  Claim C3, the code at a failing input. The employee's row of today has neither a
  check-in time nor a check-out time. \<open>checkOutByCode\<close> rejects it, as the claim says;
  \<open>checkOut\<close> (server at UTC+3, 08:15 local time) returns success and writes the check-out
  time into the row.
\<close>

theorem checkOut_accepts_missing_checkIn:
  "getTodayAttendance ex_manual_world 1 18900000 = Some ex_manual_row
   \<and> checkInTime ex_manual_row = None
   \<and> fst (checkOutByCode 18900000 ex_code_input ex_manual_world) = Inl NoCheckInToday
   \<and> fst (checkOut 10800000 18900000 7 ex_input ex_manual_world) = Inr ()
   \<and> map checkOutTime
        (attendanceRecords (snd (checkOut 10800000 18900000 7 ex_input ex_manual_world)))
       = [Some 18900000]"
  by (simp add: ex_manual_world_def ex_manual_row_def ex_defs checkIn_defs checkOut_defs)

section \<open>Notification failures during a check-in\<close>

text \<open>
  Claim C8, the code at failing inputs. A check-in from device \<open>D2\<close> by the employee bound
  to \<open>D1\<close> is rejected as unauthorised when the notification is stored, and with the
  store's error when the insert of the notification fails. The same holds for a check-in
  outside the only work zone. A late check-in, which succeeds when the late-arrival
  notification is stored, fails with the store's error when that insert fails, and no
  attendance row is written.
\<close>

theorem checkIn_notification_failure_propagates:
  "fst (checkInByCode 18900000 ex_other_device ex_bound_world) = Inl DeviceUnauthorized
   \<and> fst (checkInByCode 18900000 ex_other_device
            (ex_bound_world\<lparr>notificationInsertFails := True\<rparr>)) = Inl DatabaseError
   \<and> fst (checkInByCode 18900000 (ex_code_input\<lparr>ci_latitude := 2 / 1000\<rparr>) ex_zone_world)
       = Inl OutsideWorkZone
   \<and> fst (checkInByCode 18900000 (ex_code_input\<lparr>ci_latitude := 2 / 1000\<rparr>)
            (ex_zone_world\<lparr>notificationInsertFails := True\<rparr>)) = Inl DatabaseError
   \<and> fst (checkInByCode 18960000 ex_code_input ex_world)
       = Inr \<lparr>cr_status = Late, cr_recordId = 1\<rparr>
   \<and> checkInByCode 18960000 ex_code_input (ex_world\<lparr>notificationInsertFails := True\<rparr>)
       = (Inl DatabaseError, ex_world\<lparr>notificationInsertFails := True\<rparr>)"
  using distance_north
  by (simp add: ex_bound_world_def ex_bound_employee_def ex_other_device_def ex_zone_world_def
      ex_zone_def ex_defs checkIn_defs)

section \<open>Device binding\<close>














section \<open>Return from a field task\<close>

lemma latestTask_None: "latestTask ts = None \<longleftrightarrow> ts = []"
  by (induction ts) (auto split: option.splits)

lemma latestTask_mem: "latestTask ts = Some t \<Longrightarrow> t \<in> set ts"
  by (induction ts arbitrary: t) (auto split: option.splits if_splits)

lemma latestTask_max:
  "latestTask ts = Some t \<Longrightarrow> u \<in> set ts \<Longrightarrow> \<not> startsBefore (ft_startTime t) (ft_startTime u)"
proof (induction ts arbitrary: t)
  case Nil
  then show ?case by simp
next
  case (Cons a as)
  show ?case
  proof (cases "latestTask as")
    case None
    then have "as = []" by (simp add: latestTask_None)
    with Cons.prems show ?thesis by (cases "ft_startTime t") auto
  next
    case (Some v)
    note IH = Cons.IH[OF Some]
    show ?thesis
    proof (cases "startsBefore (ft_startTime a) (ft_startTime v)")
      case True
      with Some Cons.prems(1) have tv: "t = v" by simp
      show ?thesis
      proof (cases "u = a")
        case True
        with tv \<open>startsBefore (ft_startTime a) (ft_startTime v)\<close> show ?thesis
          by (cases "ft_startTime a"; cases "ft_startTime v") auto
      next
        case False
        with Cons.prems(2) have "u \<in> set as" by simp
        with IH tv show ?thesis by simp
      qed
    next
      case False
      with Some Cons.prems(1) have ta: "t = a" by simp
      show ?thesis
      proof (cases "u = a")
        case True
        with ta show ?thesis by (cases "ft_startTime a") auto
      next
        case False
        with Cons.prems(2) have "u \<in> set as" by simp
        then have "\<not> startsBefore (ft_startTime v) (ft_startTime u)" by (rule IH)
        with \<open>\<not> startsBefore (ft_startTime a) (ft_startTime v)\<close> ta show ?thesis
          by (cases "ft_startTime a"; cases "ft_startTime v"; cases "ft_startTime u") auto
      qed
    qed
  qed
qed

lemma getActiveFieldTask_None:
  "getActiveFieldTask w employeeId = None \<longleftrightarrow> \<not> spec_hasActiveTask w employeeId"
  by (auto simp: getActiveFieldTask_def spec_hasActiveTask_def latestTask_None list_ex_iff
      filter_empty_conv)

lemma getActiveFieldTask_Some:
  assumes "getActiveFieldTask w employeeId = Some task"
  shows "task \<in> set (fieldTasks w) \<and> ft_employeeId task = employeeId
       \<and> ft_status task = TaskActive
       \<and> (\<forall>u \<in> set (fieldTasks w). ft_employeeId u = employeeId \<and> ft_status u = TaskActive
             \<longrightarrow> \<not> startsBefore (ft_startTime task) (ft_startTime u))"
  using latestTask_mem[OF assms[unfolded getActiveFieldTask_def]]
    latestTask_max[OF assms[unfolded getActiveFieldTask_def]]
  by auto

lemma completeFieldTask_marks:
  "task \<in> set (fieldTasks w) \<Longrightarrow>
     task\<lparr>ft_status := TaskCompleted\<rparr> \<in> set (fieldTasks (completeFieldTask (ft_id task) w))"
  by (force simp: completeFieldTask_def)

lemma returnFromField_cases:
  "(\<not> spec_hasActiveTask w employeeId \<longrightarrow> returnFromField employeeId w = (Inr 0, w))
   \<and> (spec_hasActiveTask w employeeId \<longrightarrow>
        (\<exists>task. getActiveFieldTask w employeeId = Some task
           \<and> returnFromField employeeId w = (Inr (ft_id task), completeFieldTask (ft_id task) w)))"
  using getActiveFieldTask_None[of w employeeId]
  by (cases "getActiveFieldTask w employeeId") (auto simp: returnFromField_def Let_def)

text \<open>
  Claim C9. For an employee found by code, \<open>fieldTask.create\<close> (called with the employee's
  id) and \<open>fieldTask.createByCode\<close>, called with \<open>isReturn = true\<close>: when the employee has no
  active field task the call returns id 0 and the store is unchanged; when there is one,
  the call returns the id of an active task of the employee (the one that started last),
  sets the status of the rows with that id to "completed" and changes nothing else.
\<close>

theorem fieldTask_return_completes_active:
  assumes "getEmployeeByCode w code = Some emp"
    and "r = fieldTask_create now (e_id emp) (Some True) w
         \<or> r = fieldTask_createByCode now code (Some True) w"
  shows "(\<not> spec_hasActiveTask w (e_id emp) \<longrightarrow> r = (Inr 0, w))
       \<and> (spec_hasActiveTask w (e_id emp) \<longrightarrow>
            (\<exists>task. task \<in> set (fieldTasks w) \<and> ft_employeeId task = e_id emp
               \<and> ft_status task = TaskActive
               \<and> (\<forall>u \<in> set (fieldTasks w).
                     ft_employeeId u = e_id emp \<and> ft_status u = TaskActive
                     \<longrightarrow> \<not> startsBefore (ft_startTime task) (ft_startTime u))
               \<and> fst r = Inr (ft_id task)
               \<and> snd r = w\<lparr>fieldTasks :=
                     map (\<lambda>t. if ft_id t = ft_id task then t\<lparr>ft_status := TaskCompleted\<rparr> else t)
                       (fieldTasks w)\<rparr>
               \<and> task\<lparr>ft_status := TaskCompleted\<rparr> \<in> set (fieldTasks (snd r))))"
proof -
  have r: "r = returnFromField (e_id emp) w"
    using assms by (auto simp: fieldTask_create_def fieldTask_createByCode_def)
  show ?thesis
  proof (cases "spec_hasActiveTask w (e_id emp)")
    case False
    then show ?thesis using returnFromField_cases[of w "e_id emp"] r by simp
  next
    case True
    then obtain task where t: "getActiveFieldTask w (e_id emp) = Some task"
      and rr: "returnFromField (e_id emp) w
                 = (Inr (ft_id task), completeFieldTask (ft_id task) w)"
      using returnFromField_cases[of w "e_id emp"] by auto
    from getActiveFieldTask_Some[OF t] completeFieldTask_marks[of task w] rr r True
    show ?thesis
      by (intro conjI impI exI[of _ task]) (auto simp: completeFieldTask_def)
  qed
qed

text \<open>
  With no field task, the return by code yields id 0 and the same store; with the active
  task 5 of the employee, the return by id yields 5 and completes the task.
\<close>

theorem fieldTask_return_completes_active_witness:
  "getEmployeeByCode ex_world ''E1'' = Some ex_employee
   \<and> \<not> spec_hasActiveTask ex_world (e_id ex_employee)
   \<and> fieldTask_createByCode 0 ''E1'' (Some True) ex_world = (Inr 0, ex_world)
   \<and> getEmployeeByCode ex_task_world ''E1'' = Some ex_employee
   \<and> spec_hasActiveTask ex_task_world (e_id ex_employee)
   \<and> fst (fieldTask_create 0 (e_id ex_employee) (Some True) ex_task_world) = Inr 5
   \<and> fieldTasks (snd (fieldTask_create 0 (e_id ex_employee) (Some True) ex_task_world))
       = [ex_task\<lparr>ft_status := TaskCompleted\<rparr>]"
proof -
  have e: "getEmployeeByCode ex_world ''E1'' = Some ex_employee"
    "getEmployeeByCode ex_task_world ''E1'' = Some ex_employee"
    by (simp_all add: getEmployeeByCode_def ex_task_world_def ex_defs)
  have a: "\<not> spec_hasActiveTask ex_world (e_id ex_employee)"
    "spec_hasActiveTask ex_task_world (e_id ex_employee)"
    by (simp_all add: spec_hasActiveTask_def ex_task_world_def ex_task_def ex_defs)
  have t: "set (fieldTasks ex_task_world) = {ex_task}" "ft_id ex_task = 5"
    "fieldTasks ex_task_world = [ex_task]"
    by (simp_all add: ex_task_world_def ex_task_def)
  from fieldTask_return_completes_active[OF e(1) disjI2, OF refl, of 0]
    fieldTask_return_completes_active[OF e(2) disjI1, OF refl, of 0] e a t
  show ?thesis by auto
qed

section \<open>Leave requests\<close>

lemmas leave_defs = leave_create_def leave_approve_def leave_reject_def reviewGuards_def
  notifyDecision_def updateLeaveRequestStatus_def statusUpdate_def updateLeaveBalance_def
  getLeaveBalance_def getOrCreateLeaveBalance_def createLeaveRequest_def
  getLeaveRequestById_def computeTotalDays_def balanceKey_def andThen_def caught_def
  createNotification_def createBranchNotification_def truthyNumber_def truthy_def
  getEmployeeByCode_def getEmployeeById_def nextId_def Let_def

lemmas ex_leave_defs = ex_manager_def ex_ledger_def ex_leave21_def
  ex_fresh_balance_def ex_employee_def ex_world_def ex_settings_def

lemma getOrCreateLeaveBalance_cases:
  "getOrCreateLeaveBalance year eid w = (res, w1) \<Longrightarrow>
     (\<exists>b. find (\<lambda>b. lb_employeeId b = eid \<and> lb_year b = year) (leaveBalances w) = Some b
          \<and> res = Inr b \<and> w1 = w)
   \<or> (find (\<lambda>b. lb_employeeId b = eid \<and> lb_year b = year) (leaveBalances w) = None
        \<and> res = Inl DatabaseError \<and> w1 = w)
   \<or> (\<exists>b. find (\<lambda>b. lb_employeeId b = eid \<and> lb_year b = year) (leaveBalances w) = None
        \<and> res = Inr b \<and> w1 = w\<lparr>leaveBalances := leaveBalances w @ [b]\<rparr>
        \<and> lb_id b = nextId (map lb_id (leaveBalances w))
        \<and> lb_employeeId b = eid \<and> lb_year b = year
        \<and> usedAnnual b = 0 \<and> usedSick b = 0 \<and> usedEmergency b = 0
        \<and> annualBalance b = 21 \<and> sickBalance b = 10 \<and> emergencyBalance b = 5)"
  by (auto simp: getOrCreateLeaveBalance_def Let_def split: option.splits if_splits)

lemma find_append_cases:
  "find P (xs @ ys) = (case find P xs of None \<Rightarrow> find P ys | Some x \<Rightarrow> Some x)"
  by (induction xs) auto

lemma getOrCreateLeaveBalance_Inr:
  assumes "getOrCreateLeaveBalance year eid w = (Inr b, w1)"
  shows "find (\<lambda>b. lb_employeeId b = eid \<and> lb_year b = year) (leaveBalances w1) = Some b"
    and "\<exists>new. leaveBalances w1 = leaveBalances w @ new
           \<and> (\<forall>n \<in> set new. usedAnnual n = 0 \<and> usedSick n = 0 \<and> usedEmergency n = 0)"
    and "leaveRequests w1 = leaveRequests w" and "employees w1 = employees w"
  using getOrCreateLeaveBalance_cases[OF assms]
  by (auto simp: find_append_cases)

lemma getOrCreateLeaveBalance_again:
  assumes "getOrCreateLeaveBalance year eid w = (Inr b, w1)"
  shows "getOrCreateLeaveBalance year eid w1 = (Inr b, w1)"
  using getOrCreateLeaveBalance_Inr(1)[OF assms]
  by (simp add: getOrCreateLeaveBalance_def)

lemma computeTotalDays_ge1: "1 \<le> computeTotalDays s e"
proof -
  have "0 \<le> real_of_int \<bar>e - s\<bar> / (1000 * 60 * 60 * 24)" by simp
  then have "0 \<le> \<lceil>real_of_int \<bar>e - s\<bar> / (1000 * 60 * 60 * 24)\<rceil>"
    by (metis ceiling_mono ceiling_zero)
  then show ?thesis by (simp add: computeTotalDays_def Let_def)
qed

lemma computeTotalDays_sym: "computeTotalDays s e = computeTotalDays e s"
  by (simp add: computeTotalDays_def abs_minus_commute)

lemma computeTotalDays_days:
  "computeTotalDays (86400000 * a) (86400000 * b) = \<bar>b - a\<bar> + 1"
proof -
  have "86400000 * b - 86400000 * a = 86400000 * (b - a)" by arith
  then have "\<bar>86400000 * b - 86400000 * a\<bar> = \<bar>86400000\<bar> * \<bar>b - a\<bar>"
    by (simp only: abs_mult)
  then have "\<bar>86400000 * b - 86400000 * a\<bar> = 86400000 * \<bar>b - a\<bar>"
    by simp
  moreover have "real_of_int (86400000 * \<bar>b - a\<bar>) / (1000 * 60 * 60 * 24) = real_of_int \<bar>b - a\<bar>"
    by simp
  ultimately have "\<lceil>real_of_int \<bar>86400000 * b - 86400000 * a\<bar> / (1000 * 60 * 60 * 24)\<rceil> = \<bar>b - a\<bar>"
    by (simp only: ceiling_of_int)
  then show ?thesis unfolding computeTotalDays_def Let_def by simp
qed

lemma computeTotalDays_reversed:
  assumes "e < s"
  shows "computeTotalDays s e = \<lceil>real_of_int (s - e) / 86400000\<rceil> + 1"
    and "2 \<le> computeTotalDays s e"
proof -
  show a: "computeTotalDays s e = \<lceil>real_of_int (s - e) / 86400000\<rceil> + 1"
    using assms by (simp add: computeTotalDays_def Let_def abs_if)
  have "0 < real_of_int (s - e) / 86400000" using assms by simp
  then have "0 < \<lceil>real_of_int (s - e) / 86400000\<rceil>" by (simp only: less_ceiling_iff of_int_0)
  with a show "2 \<le> computeTotalDays s e" by simp
qed

lemma getLeaveBalance_Inr:
  assumes "getLeaveBalance year eid w = (Inr balance, w1)"
  shows "\<exists>b. getOrCreateLeaveBalance year eid w = (Inr b, w1)
          \<and> remaining (annual balance) = annualBalance b - usedAnnual b
          \<and> remaining (sick balance) = sickBalance b - usedSick b
          \<and> remaining (emergency balance) = emergencyBalance b - usedEmergency b"
  using assms
  by (cases "getOrCreateLeaveBalance year eid w")
     (auto simp: getLeaveBalance_def andThen_def split: sum.splits)

text \<open>
  The balance can be read or created whenever the employee has no balance row of another
  year.
\<close>

lemma getLeaveBalance_defined:
  assumes "\<forall>b \<in> set (leaveBalances w). lb_employeeId b = eid \<longrightarrow> lb_year b = year"
  shows "\<exists>balance w1. getLeaveBalance year eid w = (Inr balance, w1)"
proof (cases "find (\<lambda>b. lb_employeeId b = eid \<and> lb_year b = year) (leaveBalances w)")
  case None
  with assms have "\<not> list_ex (\<lambda>b. lb_employeeId b = eid) (leaveBalances w)"
    by (auto simp: find_None_iff list_ex_iff)
  with None show ?thesis
    by (simp add: getLeaveBalance_def getOrCreateLeaveBalance_def andThen_def Let_def)
next
  case (Some b)
  then show ?thesis
    by (simp add: getLeaveBalance_def getOrCreateLeaveBalance_def andThen_def)
qed

lemma getLeaveBalance_again:
  assumes "getLeaveBalance year eid w = (Inr balance, w1)"
  shows "getLeaveBalance year eid w1 = (Inr balance, w1)"
proof -
  from assms obtain b where b: "getOrCreateLeaveBalance year eid w = (Inr b, w1)"
    using getLeaveBalance_Inr by blast
  from assms b getOrCreateLeaveBalance_again[OF b] show ?thesis
    by (simp add: getLeaveBalance_def andThen_def)
qed

lemma getLeaveBalance_frame:
  "leaveBalances w' = leaveBalances w \<Longrightarrow>
     fst (getLeaveBalance year eid w') = fst (getLeaveBalance year eid w)"
  by (simp add: getLeaveBalance_def getOrCreateLeaveBalance_def andThen_def Let_def
      split: option.splits)

lemma leave_create_tail:
  "(let (requestId, w2) = createLeaveRequest eid ty s e days w1;
        w3 = (if truthyNumber br
              then caught (createBranchNotification (the br) BranchGeneral (Some eid) w2)
              else w2);
        w4 = caught (createNotification NotifSystem (Some eid) w3)
    in (Inr requestId, w4)) = (res, w')
   \<Longrightarrow> res = Inr (nextId (map lr_id (leaveRequests w1)))
     \<and> leaveRequests w' = leaveRequests w1
          @ [\<lparr>lr_id = nextId (map lr_id (leaveRequests w1)), lr_employeeId = eid,
              lr_leaveType = ty, lr_startDate = s, lr_endDate = e, totalDays = days,
              lr_status = Pending, reviewedBy = None, reviewedAt = None,
              rejectionReason = None\<rparr>]
     \<and> leaveBalances w' = leaveBalances w1"
  by (auto simp: createLeaveRequest_def Let_def caught_def createBranchNotification_def
      createNotification_def split: if_splits)

lemma leave_create_unpaid:
  assumes "getEmployeeByCode w (li_employeeCode input) = Some emp"
    and "li_leaveType input = Unpaid"
  shows "fst (leave_create year input w) = Inr (nextId (map lr_id (leaveRequests w)))"
    and "leaveRequests (snd (leave_create year input w)) = leaveRequests w
           @ [spec_pendingRequest (nextId (map lr_id (leaveRequests w))) (e_id emp) input]"
    and "leaveBalances (snd (leave_create year input w)) = leaveBalances w"
  using assms
    leave_create_tail[of "e_id emp" Unpaid "li_startDate input" "li_endDate input"
      "computeTotalDays (li_startDate input) (li_endDate input)" w "branchId emp"
      "fst (leave_create year input w)" "snd (leave_create year input w)"]
  by (simp_all add: leave_create_def andThen_def spec_pendingRequest_def Let_def)

lemma leave_create_paid:
  assumes "getEmployeeByCode w (li_employeeCode input) = Some emp"
    and "li_leaveType input \<noteq> Unpaid"
    and "getLeaveBalance year (e_id emp) w = (Inr balance, w1)"
  shows "remaining (balanceKey (li_leaveType input) balance)
           < computeTotalDays (li_startDate input) (li_endDate input)
         \<Longrightarrow> leave_create year input w
             = (Inl (InsufficientBalance (remaining (balanceKey (li_leaveType input) balance))),
                w1)"
    and "\<not> remaining (balanceKey (li_leaveType input) balance)
             < computeTotalDays (li_startDate input) (li_endDate input)
         \<Longrightarrow> fst (leave_create year input w) = Inr (nextId (map lr_id (leaveRequests w)))
           \<and> leaveRequests (snd (leave_create year input w)) = leaveRequests w
               @ [spec_pendingRequest (nextId (map lr_id (leaveRequests w))) (e_id emp) input]
           \<and> leaveBalances (snd (leave_create year input w)) = leaveBalances w1"
proof -
  from assms(3) obtain b where b: "getOrCreateLeaveBalance year (e_id emp) w = (Inr b, w1)"
    using getLeaveBalance_Inr by blast
  note r = getOrCreateLeaveBalance_Inr(3)[OF b]
  show "remaining (balanceKey (li_leaveType input) balance)
           < computeTotalDays (li_startDate input) (li_endDate input)
         \<Longrightarrow> leave_create year input w
             = (Inl (InsufficientBalance (remaining (balanceKey (li_leaveType input) balance))),
                w1)"
    using assms by (simp add: leave_create_def andThen_def Let_def)
  assume "\<not> remaining (balanceKey (li_leaveType input) balance)
             < computeTotalDays (li_startDate input) (li_endDate input)"
  then show "fst (leave_create year input w) = Inr (nextId (map lr_id (leaveRequests w)))
           \<and> leaveRequests (snd (leave_create year input w)) = leaveRequests w
               @ [spec_pendingRequest (nextId (map lr_id (leaveRequests w))) (e_id emp) input]
           \<and> leaveBalances (snd (leave_create year input w)) = leaveBalances w1"
    using assms r
      leave_create_tail[of "e_id emp" "li_leaveType input" "li_startDate input"
        "li_endDate input" "computeTotalDays (li_startDate input) (li_endDate input)" w1
        "branchId emp" "fst (leave_create year input w)" "snd (leave_create year input w)"]
    by (simp add: leave_create_def andThen_def spec_pendingRequest_def Let_def)
qed

text \<open>
  The balance check where the balance can be read or created. For a known employee and a
  leave type other than unpaid, let \<open>balance\<close> be the answer of \<open>getLeaveBalance\<close> for the
  employee, which exists whenever the employee has no balance row of another year. If the remaining days of the type are
  strictly fewer than the total days of the request, \<open>leave.create\<close> fails with the
  insufficient-balance error and the leave requests are unchanged; otherwise it returns
  the id of a new row, appended in pending status with those total days. In both cases the
  balance that \<open>getLeaveBalance\<close> reports afterwards is the same, and every balance row that
  existed is unchanged (a row created on first access has nothing used).
\<close>

theorem leave_create_balance_check:
  assumes "getEmployeeByCode w (li_employeeCode input) = Some emp"
    and "li_leaveType input \<noteq> Unpaid"
    and "getLeaveBalance year (e_id emp) w = (Inr balance, w1)"
  shows "(remaining (balanceKey (li_leaveType input) balance)
            < computeTotalDays (li_startDate input) (li_endDate input) \<longrightarrow>
           fst (leave_create year input w)
             = Inl (InsufficientBalance (remaining (balanceKey (li_leaveType input) balance)))
           \<and> leaveRequests (snd (leave_create year input w)) = leaveRequests w)
       \<and> (\<not> remaining (balanceKey (li_leaveType input) balance)
              < computeTotalDays (li_startDate input) (li_endDate input) \<longrightarrow>
           fst (leave_create year input w) = Inr (nextId (map lr_id (leaveRequests w)))
           \<and> leaveRequests (snd (leave_create year input w)) = leaveRequests w
               @ [spec_pendingRequest (nextId (map lr_id (leaveRequests w))) (e_id emp) input])
       \<and> fst (getLeaveBalance year (e_id emp) (snd (leave_create year input w))) = Inr balance
       \<and> (\<exists>new. leaveBalances (snd (leave_create year input w)) = leaveBalances w @ new
             \<and> (\<forall>n \<in> set new. usedAnnual n = 0 \<and> usedSick n = 0 \<and> usedEmergency n = 0))"
proof -
  from assms(3) obtain b where b: "getOrCreateLeaveBalance year (e_id emp) w = (Inr b, w1)"
    using getLeaveBalance_Inr by blast
  have lb: "leaveBalances (snd (leave_create year input w)) = leaveBalances w1"
    using leave_create_paid[OF assms]
    by (cases "remaining (balanceKey (li_leaveType input) balance)
                 < computeTotalDays (li_startDate input) (li_endDate input)") simp_all
  have "fst (getLeaveBalance year (e_id emp) (snd (leave_create year input w)))
          = fst (getLeaveBalance year (e_id emp) w1)"
    by (rule getLeaveBalance_frame[OF lb])
  then have g: "fst (getLeaveBalance year (e_id emp) (snd (leave_create year input w)))
                  = Inr balance"
    using getLeaveBalance_again[OF assms(3)] by simp
  show ?thesis
    using leave_create_paid[OF assms] getOrCreateLeaveBalance_Inr(2,3)[OF b] g lb
    by auto
qed


text \<open>
  A fresh balance (21 annual days): a request of 25 days is refused with 21 remaining, a
  request of 21 days is created as request 1; the balance still reads 21 remaining.
\<close>

theorem leave_create_balance_check_witness:
  "getEmployeeByCode ex_ledger (li_employeeCode ex_leave25) = Some ex_employee
   \<and> getEmployeeByCode ex_ledger (li_employeeCode ex_leave21) = Some ex_employee
   \<and> li_leaveType ex_leave25 \<noteq> Unpaid \<and> li_leaveType ex_leave21 \<noteq> Unpaid
   \<and> fst (getLeaveBalance 2026 (e_id ex_employee) ex_ledger) = Inr ex_fresh_summary
   \<and> remaining (balanceKey Annual ex_fresh_summary) = 21
   \<and> computeTotalDays (li_startDate ex_leave25) (li_endDate ex_leave25) = 25
   \<and> fst (leave_create 2026 ex_leave25 ex_ledger) = Inl (InsufficientBalance 21)
   \<and> leaveRequests (snd (leave_create 2026 ex_leave25 ex_ledger)) = []
   \<and> computeTotalDays (li_startDate ex_leave21) (li_endDate ex_leave21) = 21
   \<and> fst (leave_create 2026 ex_leave21 ex_ledger) = Inr 1
   \<and> leaveRequests (snd (leave_create 2026 ex_leave21 ex_ledger))
       = [spec_pendingRequest 1 1 ex_leave21]
   \<and> fst (getLeaveBalance 2026 (e_id ex_employee) (snd (leave_create 2026 ex_leave21 ex_ledger)))
       = Inr ex_fresh_summary"
proof -
  have e: "getEmployeeByCode ex_ledger (li_employeeCode ex_leave25) = Some ex_employee"
    "getEmployeeByCode ex_ledger (li_employeeCode ex_leave21) = Some ex_employee"
    by (simp_all add: getEmployeeByCode_def ex_leave25_def ex_leave_defs)
  have t: "li_leaveType ex_leave25 \<noteq> Unpaid" "li_leaveType ex_leave21 \<noteq> Unpaid"
    "li_leaveType ex_leave25 = Annual" "li_leaveType ex_leave21 = Annual"
    by (simp_all add: ex_leave25_def ex_leave_defs)
  obtain w1 where g: "getLeaveBalance 2026 (e_id ex_employee) ex_ledger
                        = (Inr ex_fresh_summary, w1)"
    by (simp add: ex_fresh_summary_def ex_leave_defs leave_defs)
  have r: "remaining (balanceKey Annual ex_fresh_summary) = 21"
    by (simp add: balanceKey_def ex_fresh_summary_def)
  have d: "computeTotalDays (li_startDate ex_leave25) (li_endDate ex_leave25) = 25"
    "computeTotalDays (li_startDate ex_leave21) (li_endDate ex_leave21) = 21"
    by (simp_all add: computeTotalDays_def ex_leave25_def ex_leave_defs)
  have i: "nextId (map lr_id (leaveRequests ex_ledger)) = 1" "leaveRequests ex_ledger = []"
    "e_id ex_employee = 1"
    by (simp_all add: nextId_def ex_leave_defs)
  from leave_create_balance_check[OF e(1) t(1) g] leave_create_balance_check[OF e(2) t(2) g]
    e t g r d i
  show ?thesis by simp
qed

text \<open>
  Claim C10. \<open>leave.create\<close> has no test that the start date is not after the end date.
  For a known employee and a request whose end date is strictly earlier than its start
  date, the total days are the ceiling of the absolute difference in days plus one, at
  least 1, and the request is created in pending status under the usual rule: always for
  unpaid leave, and for the other types when the total days do not exceed the remaining
  balance.
\<close>

theorem leave_create_reversed_dates:
  assumes "getEmployeeByCode w (li_employeeCode input) = Some emp"
    and "li_endDate input < li_startDate input"
    and "li_leaveType input = Unpaid
         \<or> (\<exists>balance w1. getLeaveBalance year (e_id emp) w = (Inr balance, w1)
               \<and> computeTotalDays (li_startDate input) (li_endDate input)
                    \<le> remaining (balanceKey (li_leaveType input) balance))"
  shows "computeTotalDays (li_startDate input) (li_endDate input)
           = \<lceil>real_of_int (li_startDate input - li_endDate input) / 86400000\<rceil> + 1
       \<and> 1 \<le> computeTotalDays (li_startDate input) (li_endDate input)
       \<and> fst (leave_create year input w) = Inr (nextId (map lr_id (leaveRequests w)))
       \<and> leaveRequests (snd (leave_create year input w)) = leaveRequests w
           @ [spec_pendingRequest (nextId (map lr_id (leaveRequests w))) (e_id emp) input]"
proof (cases "li_leaveType input = Unpaid")
  case True
  then show ?thesis
    using computeTotalDays_reversed[OF assms(2)] leave_create_unpaid[OF assms(1) True]
    by simp
next
  case False
  with assms(3) obtain balance w1 where
    g: "getLeaveBalance year (e_id emp) w = (Inr balance, w1)"
    and e: "\<not> remaining (balanceKey (li_leaveType input) balance)
               < computeTotalDays (li_startDate input) (li_endDate input)"
    by auto
  show ?thesis
    using computeTotalDays_reversed[OF assms(2)] leave_create_paid(2)[OF assms(1) False g e]
    by simp
qed

text \<open>An unpaid request from day 4 back to day 0 is created as request 1, with 5 days.\<close>

theorem leave_create_reversed_dates_witness:
  "getEmployeeByCode ex_ledger (li_employeeCode ex_reversed) = Some ex_employee
   \<and> li_endDate ex_reversed < li_startDate ex_reversed
   \<and> li_leaveType ex_reversed = Unpaid
   \<and> computeTotalDays (li_startDate ex_reversed) (li_endDate ex_reversed) = 5
   \<and> fst (leave_create 2026 ex_reversed ex_ledger) = Inr 1
   \<and> leaveRequests (snd (leave_create 2026 ex_reversed ex_ledger))
       = [spec_pendingRequest 1 1 ex_reversed]"
proof -
  have e: "getEmployeeByCode ex_ledger (li_employeeCode ex_reversed) = Some ex_employee"
    by (simp add: getEmployeeByCode_def ex_reversed_def ex_leave_defs)
  have o: "li_endDate ex_reversed < li_startDate ex_reversed"
    and u: "li_leaveType ex_reversed = Unpaid"
    by (simp_all add: ex_reversed_def)
  have c: "\<lceil>real_of_int (li_startDate ex_reversed - li_endDate ex_reversed) / 86400000\<rceil> + 1
             = 5"
    by (simp add: ex_reversed_def)
  have i: "nextId (map lr_id (leaveRequests ex_ledger)) = 1" "leaveRequests ex_ledger = []"
    "e_id ex_employee = 1"
    by (simp_all add: nextId_def ex_leave_defs)
  from leave_create_reversed_dates[OF e o disjI1, OF u, of 2026] e o u c i
  show ?thesis by simp
qed

section \<open>Decisions on leave requests\<close>

lemma reviewGuards_Inr:
  assumes "reviewGuards w rid code = Inr (reviewer, request)"
  shows "getEmployeeByCode w code = Some reviewer"
    and "e_role reviewer = RoleBranchManager \<or> e_role reviewer = RoleAdmin"
    and "getLeaveRequestById w rid = Some request" and "lr_status request = Pending"
  using assms by (auto simp: reviewGuards_def split: option.splits if_splits)

lemma getOrCreateLeaveBalance_frame:
  "getOrCreateLeaveBalance year eid (w\<lparr>leaveRequests := X\<rparr>)
     = (fst (getOrCreateLeaveBalance year eid w),
        (snd (getOrCreateLeaveBalance year eid w))\<lparr>leaveRequests := X\<rparr>)"
  by (simp add: getOrCreateLeaveBalance_def Let_def split: option.splits)

lemma updateLeaveBalance_paid:
  assumes "ty \<noteq> Unpaid"
    and "getOrCreateLeaveBalance year eid w = (Inr balance, wb)"
  shows "fst (updateLeaveBalance year eid ty days w) = Inr ()"
    and "find (\<lambda>b. lb_employeeId b = eid \<and> lb_year b = year)
           (leaveBalances (snd (updateLeaveBalance year eid ty days w)))
         = Some (spec_incrementUsed ty days balance)"
    and "leaveRequests (snd (updateLeaveBalance year eid ty days w)) = leaveRequests w"
    and "employees (snd (updateLeaveBalance year eid ty days w)) = employees w"
    and "branchNotifications (snd (updateLeaveBalance year eid ty days w))
           = branchNotifications w"
    and "notificationInsertFails (snd (updateLeaveBalance year eid ty days w))
           = notificationInsertFails w"
proof -
  let ?f = "\<lambda>b. if lb_id b = lb_id balance
                then (case ty of
                        Annual \<Rightarrow> b\<lparr>usedAnnual := usedAnnual balance + days\<rparr>
                      | Sick \<Rightarrow> b\<lparr>usedSick := usedSick balance + days\<rparr>
                      | Emergency \<Rightarrow> b\<lparr>usedEmergency := usedEmergency balance + days\<rparr>
                      | Unpaid \<Rightarrow> b)
                else b"
  have u: "updateLeaveBalance year eid ty days w
             = (Inr (), wb\<lparr>leaveBalances := map ?f (leaveBalances wb)\<rparr>)"
    using assms by (simp add: updateLeaveBalance_def andThen_def)
  have "find (\<lambda>b. lb_employeeId b = eid \<and> lb_year b = year) (map ?f (leaveBalances wb))
          = Some (?f balance)"
    by (rule find_map_upd[OF getOrCreateLeaveBalance_Inr(1)[OF assms(2)]])
       (simp split: leave_type.splits)
  moreover have "?f balance = spec_incrementUsed ty days balance"
    by (simp add: spec_incrementUsed_def split: leave_type.splits)
  ultimately show "find (\<lambda>b. lb_employeeId b = eid \<and> lb_year b = year)
           (leaveBalances (snd (updateLeaveBalance year eid ty days w)))
         = Some (spec_incrementUsed ty days balance)"
    by (simp add: u)
  show "fst (updateLeaveBalance year eid ty days w) = Inr ()" by (simp add: u)
  from getOrCreateLeaveBalance_cases[OF assms(2)]
  show "leaveRequests (snd (updateLeaveBalance year eid ty days w)) = leaveRequests w"
    "employees (snd (updateLeaveBalance year eid ty days w)) = employees w"
    "branchNotifications (snd (updateLeaveBalance year eid ty days w)) = branchNotifications w"
    "notificationInsertFails (snd (updateLeaveBalance year eid ty days w))
       = notificationInsertFails w"
    by (auto simp: u)
qed

lemma notifyDecision_frame:
  "leaveBalances (snd (notifyDecision request w)) = leaveBalances w"
  "leaveRequests (snd (notifyDecision request w)) = leaveRequests w"
  by (auto simp: notifyDecision_def andThen_def createBranchNotification_def Let_def
      split: option.splits)

lemma status_update_row:
  assumes "getLeaveRequestById w rid = Some request"
  shows "getLeaveRequestById
           (w\<lparr>leaveRequests :=
                map (\<lambda>r. if lr_id r = rid then statusUpdate status rv now reason r else r)
                  (leaveRequests w)\<rparr>) rid
         = Some (statusUpdate status rv now reason request)"
proof -
  have i: "lr_id request = rid"
    using find_Some_mem[OF assms[unfolded getLeaveRequestById_def]] by simp
  have "find (\<lambda>r. lr_id r = rid)
          (map (\<lambda>r. if lr_id r = rid then statusUpdate status rv now reason r else r)
             (leaveRequests w))
        = Some ((\<lambda>r. if lr_id r = rid then statusUpdate status rv now reason r else r) request)"
    by (rule find_map_upd[OF assms[unfolded getLeaveRequestById_def]])
       (simp add: statusUpdate_def Let_def)
  then show ?thesis by (simp add: getLeaveRequestById_def i)
qed

lemma approve_status_step:
  assumes "getLeaveRequestById w rid = Some request"
  shows "updateLeaveRequestStatus year now rid Approved rv None w
           = updateLeaveBalance year (lr_employeeId request) (lr_leaveType request)
               (totalDays request)
               (w\<lparr>leaveRequests :=
                    map (\<lambda>r. if lr_id r = rid then statusUpdate Approved rv now None r else r)
                      (leaveRequests w)\<rparr>)"
  using status_update_row[OF assms, where status=Approved and rv=rv and now=now and reason=None]
  by (simp add: updateLeaveRequestStatus_def Let_def statusUpdate_def)

lemma updateLeaveBalance_requests:
  "leaveRequests (snd (updateLeaveBalance year eid ty days w)) = leaveRequests w"
  by (auto simp: updateLeaveBalance_def andThen_def getOrCreateLeaveBalance_def Let_def
      split: option.splits sum.splits prod.splits)

lemma approve_request_row:
  assumes "reviewGuards w rid code = Inr (reviewer, request)"
  shows "getLeaveRequestById (snd (leave_approve year now rid code w)) rid
           = Some (request\<lparr>lr_status := Approved, reviewedBy := Some (e_id reviewer),
                           reviewedAt := Some now\<rparr>)"
proof -
  note g = reviewGuards_Inr(3)[OF assms]
  let ?w1 = "w\<lparr>leaveRequests :=
                 map (\<lambda>r. if lr_id r = rid then statusUpdate Approved (e_id reviewer) now None r
                           else r) (leaveRequests w)\<rparr>"
  let ?u = "updateLeaveBalance year (lr_employeeId request) (lr_leaveType request)
              (totalDays request) ?w1"
  have a: "leave_approve year now rid code w
             = andThen ?u (\<lambda>_ w'. notifyDecision request w')"
    using assms approve_status_step[OF g] by (simp add: leave_approve_def)
  have "leaveRequests (snd (leave_approve year now rid code w)) = leaveRequests ?w1"
    unfolding a using updateLeaveBalance_requests[of year "lr_employeeId request"
        "lr_leaveType request" "totalDays request" ?w1]
    by (cases ?u) (auto simp: andThen_def notifyDecision_frame split: sum.splits)
  then show ?thesis
    using status_update_row[OF g, where status=Approved and rv="e_id reviewer" and now=now and reason=None]
    by (simp add: getLeaveRequestById_def statusUpdate_def)
qed

lemma approve_balance_paid:
  assumes "reviewGuards w rid code = Inr (reviewer, request)"
    and "lr_leaveType request \<noteq> Unpaid"
    and "getOrCreateLeaveBalance year (lr_employeeId request) w = (Inr balance, wb)"
  shows "find (\<lambda>b. lb_employeeId b = lr_employeeId request \<and> lb_year b = year)
           (leaveBalances (snd (leave_approve year now rid code w)))
         = Some (spec_incrementUsed (lr_leaveType request) (totalDays request) balance)"
    and "\<not> notificationInsertFails w \<Longrightarrow> fst (leave_approve year now rid code w) = Inr ()"
proof -
  note g = reviewGuards_Inr(3)[OF assms(1)]
  let ?X = "map (\<lambda>r. if lr_id r = rid then statusUpdate Approved (e_id reviewer) now None r
                           else r) (leaveRequests w)"
  let ?w1 = "w\<lparr>leaveRequests := ?X\<rparr>"
  let ?u = "updateLeaveBalance year (lr_employeeId request) (lr_leaveType request)
              (totalDays request) ?w1"
  have a: "leave_approve year now rid code w
             = andThen ?u (\<lambda>_ w'. notifyDecision request w')"
    using assms(1) approve_status_step[OF g] by (simp add: leave_approve_def)
  have c: "getOrCreateLeaveBalance year (lr_employeeId request) ?w1
             = (Inr balance, wb\<lparr>leaveRequests := ?X\<rparr>)"
    using assms(3) by (simp add: getOrCreateLeaveBalance_frame)
  note u = updateLeaveBalance_paid[OF assms(2) c, of "totalDays request"]
  show "find (\<lambda>b. lb_employeeId b = lr_employeeId request \<and> lb_year b = year)
           (leaveBalances (snd (leave_approve year now rid code w)))
         = Some (spec_incrementUsed (lr_leaveType request) (totalDays request) balance)"
    unfolding a using u(1,2)
    by (cases ?u) (auto simp: andThen_def notifyDecision_frame)
  assume "\<not> notificationInsertFails w"
  then show "fst (leave_approve year now rid code w) = Inr ()"
    unfolding a using u(1,6)
    by (cases ?u) (auto simp: andThen_def notifyDecision_def createBranchNotification_def Let_def
        split: option.splits)
qed

lemma approve_balance_unpaid:
  assumes "reviewGuards w rid code = Inr (reviewer, request)"
    and "lr_leaveType request = Unpaid"
  shows "leaveBalances (snd (leave_approve year now rid code w)) = leaveBalances w"
proof -
  note g = reviewGuards_Inr(3)[OF assms(1)]
  show ?thesis
    using assms approve_status_step[OF g, where year=year and now=now and rv="e_id reviewer"]
    by (simp add: leave_approve_def updateLeaveBalance_def andThen_def notifyDecision_frame)
qed

lemma reject_effect:
  assumes "reviewGuards w rid code = Inr (reviewer, request)"
  shows "leaveBalances (snd (leave_reject year now rid code reason w)) = leaveBalances w"
    and "getLeaveRequestById (snd (leave_reject year now rid code reason w)) rid
           = Some (statusUpdate Rejected (e_id reviewer) now (Some reason) request)"
  using assms status_update_row[OF reviewGuards_Inr(3)[OF assms], where status=Rejected
      and rv="e_id reviewer" and now=now and reason="Some reason"]
  by (simp_all add: leave_reject_def updateLeaveRequestStatus_def andThen_def Let_def
      notifyDecision_frame getLeaveRequestById_def)

text \<open>
  The effect of a decision where the balance row can be read or created. Let the guards
  of a decision pass: the reviewer is a branch manager or an administrator and the
  request exists and is pending. Approving it leaves the request
  "approved" with the reviewer and the review time stamped. For a type other than unpaid,
  when the employee's balance row can be read or created, the row afterwards is the row
  before with the matching used counter incremented by exactly the total days of the
  request, every other field unchanged, and the call succeeds if the notification is
  stored; for unpaid leave the balance rows are unchanged. Rejecting it leaves the balance
  rows unchanged and the request "rejected" with the reviewer, the time and the reason.
\<close>

theorem leave_decision_effect:
  assumes "reviewGuards w requestId reviewerCode = Inr (reviewer, request)"
  shows "getLeaveRequestById (snd (leave_approve year now requestId reviewerCode w)) requestId
           = Some (request\<lparr>lr_status := Approved, reviewedBy := Some (e_id reviewer),
                           reviewedAt := Some now\<rparr>)
       \<and> (lr_leaveType request \<noteq> Unpaid
            \<and> getOrCreateLeaveBalance year (lr_employeeId request) w = (Inr balance, wb) \<longrightarrow>
           find (\<lambda>b. lb_employeeId b = lr_employeeId request \<and> lb_year b = year)
             (leaveBalances (snd (leave_approve year now requestId reviewerCode w)))
           = Some (spec_incrementUsed (lr_leaveType request) (totalDays request) balance)
           \<and> (\<not> notificationInsertFails w \<longrightarrow>
                fst (leave_approve year now requestId reviewerCode w) = Inr ()))
       \<and> (lr_leaveType request = Unpaid \<longrightarrow>
           leaveBalances (snd (leave_approve year now requestId reviewerCode w))
             = leaveBalances w)
       \<and> leaveBalances (snd (leave_reject year now requestId reviewerCode reason w))
           = leaveBalances w
       \<and> getLeaveRequestById (snd (leave_reject year now requestId reviewerCode reason w))
           requestId
           = Some (statusUpdate Rejected (e_id reviewer) now (Some reason) request)"
  using approve_request_row[OF assms] approve_balance_paid[OF assms]
    approve_balance_unpaid[OF assms] reject_effect[OF assms]
  by simp

text \<open>
  The pending request of 21 annual days against the fresh balance: approval by the branch
  manager \<open>M1\<close> at time 5 stamps the request and brings the used annual days to 21; a
  rejection leaves the balance row as it was.
\<close>

theorem leave_decision_effect_witness:
  "reviewGuards ex_pending 1 ''M1'' = Inr (ex_manager, spec_pendingRequest 1 1 ex_leave21)
   \<and> getOrCreateLeaveBalance 2026 1 ex_pending = (Inr ex_fresh_balance, ex_pending)
   \<and> fst (leave_approve 2026 5 1 ''M1'' ex_pending) = Inr ()
   \<and> map_option (\<lambda>r. (lr_status r, reviewedBy r, reviewedAt r))
        (getLeaveRequestById (snd (leave_approve 2026 5 1 ''M1'' ex_pending)) 1)
       = Some (Approved, Some 2, Some 5)
   \<and> totalDays (spec_pendingRequest 1 1 ex_leave21) = 21
   \<and> leaveBalances (snd (leave_approve 2026 5 1 ''M1'' ex_pending))
       = [ex_fresh_balance\<lparr>usedAnnual := 21\<rparr>]
   \<and> leaveBalances (snd (leave_reject 2026 5 1 ''M1'' ''no'' ex_pending)) = [ex_fresh_balance]"
proof -
  have p: "ex_pending = ex_ledger\<lparr>leaveRequests := [spec_pendingRequest 1 1 ex_leave21],
             leaveBalances := [ex_fresh_balance],
             adminNotifications := [\<lparr>n_id = 1, n_type = NotifSystem, n_employeeId = Some 1\<rparr>]\<rparr>"
    by (simp add: ex_pending_def spec_pendingRequest_def ex_leave_defs leave_defs)
  have g: "reviewGuards ex_pending 1 ''M1''
             = Inr (ex_manager, spec_pendingRequest 1 1 ex_leave21)"
    by (simp add: p reviewGuards_def getEmployeeByCode_def getLeaveRequestById_def
        spec_pendingRequest_def ex_leave_defs)
  have b: "getOrCreateLeaveBalance 2026 1 ex_pending = (Inr ex_fresh_balance, ex_pending)"
    by (simp add: p getOrCreateLeaveBalance_def ex_leave_defs)
  have f: "\<not> notificationInsertFails ex_pending" "leaveBalances ex_pending = [ex_fresh_balance]"
    by (simp_all add: p ex_leave_defs)
  have r: "lr_leaveType (spec_pendingRequest 1 1 ex_leave21) = Annual"
    "lr_employeeId (spec_pendingRequest 1 1 ex_leave21) = 1"
    "totalDays (spec_pendingRequest 1 1 ex_leave21) = 21"
    by (simp_all add: spec_pendingRequest_def computeTotalDays_def ex_leave_defs)
  have l: "leaveBalances (snd (leave_approve 2026 5 1 ''M1'' ex_pending))
             = [ex_fresh_balance\<lparr>usedAnnual := 21\<rparr>]"
    by (simp add: p spec_pendingRequest_def ex_leave_defs leave_defs)
  from leave_decision_effect[OF g, where year=2026 and now=5 and balance=ex_fresh_balance
      and wb=ex_pending and reason="''no''"] g b f r l
  show ?thesis by (simp add: ex_manager_def)
qed

section \<open>The used counters along a run of the ledger\<close>

lemma nonDecreasing_nth:
  "spec_usedNonDecreasing w w' \<longleftrightarrow>
     length (leaveBalances w) \<le> length (leaveBalances w')
     \<and> (\<forall>i < length (leaveBalances w). rowLe (leaveBalances w ! i) (leaveBalances w' ! i))"
  by (auto simp: spec_usedNonDecreasing_def list_all2_conv_all_nth)

lemma rowLe_refl: "rowLe b b"
  by (simp add: rowLe_def)

lemma rowLe_trans: "rowLe a b \<Longrightarrow> rowLe b c \<Longrightarrow> rowLe a c"
  by (auto simp: rowLe_def)

lemma nonDecreasing_trans:
  "spec_usedNonDecreasing a b \<Longrightarrow> spec_usedNonDecreasing b c \<Longrightarrow> spec_usedNonDecreasing a c"
  unfolding nonDecreasing_nth
  by (meson order_trans less_le_trans rowLe_trans)

lemma nonDecreasing_append:
  "leaveBalances w' = leaveBalances w @ new \<Longrightarrow> spec_usedNonDecreasing w w'"
  by (simp add: nonDecreasing_nth nth_append rowLe_refl)

lemma getOrCreate_inv:
  assumes "getOrCreateLeaveBalance year eid w = (res, w1)"
    and "distinct (map lb_id (leaveBalances w))"
  shows "distinct (map lb_id (leaveBalances w1))"
    and "\<exists>new. leaveBalances w1 = leaveBalances w @ new"
    and "leaveRequests w1 = leaveRequests w"
  using getOrCreateLeaveBalance_cases[OF assms(1)] assms(2)
    nextId_fresh[of "map lb_id (leaveBalances w)"]
  by auto

lemma updateLeaveBalance_inv:
  assumes "distinct (map lb_id (leaveBalances w))" and "0 \<le> days"
  shows "distinct (map lb_id (leaveBalances (snd (updateLeaveBalance year eid ty days w))))"
    and "spec_usedNonDecreasing w (snd (updateLeaveBalance year eid ty days w))"
proof -
  let ?u = "updateLeaveBalance year eid ty days w"
  have "distinct (map lb_id (leaveBalances (snd ?u))) \<and> spec_usedNonDecreasing w (snd ?u)"
  proof (cases "ty = Unpaid")
    case True
    then show ?thesis using assms(1)
      by (simp add: updateLeaveBalance_def nonDecreasing_nth rowLe_refl)
  next
    case False
    obtain res wb where g: "getOrCreateLeaveBalance year eid w = (res, wb)"
      by (cases "getOrCreateLeaveBalance year eid w")
    note i = getOrCreate_inv[OF g assms(1)]
    show ?thesis
    proof (cases res)
      case (Inl e)
      then show ?thesis using False g i
        by (auto simp: updateLeaveBalance_def andThen_def nonDecreasing_append)
    next
      case (Inr balance)
      let ?f = "\<lambda>b. if lb_id b = lb_id balance
                then (case ty of
                        Annual \<Rightarrow> b\<lparr>usedAnnual := usedAnnual balance + days\<rparr>
                      | Sick \<Rightarrow> b\<lparr>usedSick := usedSick balance + days\<rparr>
                      | Emergency \<Rightarrow> b\<lparr>usedEmergency := usedEmergency balance + days\<rparr>
                      | Unpaid \<Rightarrow> b)
                else b"
      have u: "?u = (Inr (), wb\<lparr>leaveBalances := map ?f (leaveBalances wb)\<rparr>)"
        using False g Inr by (simp add: updateLeaveBalance_def andThen_def)
      have ids: "map lb_id (map ?f (leaveBalances wb)) = map lb_id (leaveBalances wb)"
        by (auto split: leave_type.splits)
      have mem: "balance \<in> set (leaveBalances wb)"
        using getOrCreateLeaveBalance_Inr(1)[OF g[unfolded Inr]] by (simp add: find_Some_mem)
      have same: "b = balance" if "b \<in> set (leaveBalances wb)" "lb_id b = lb_id balance" for b
        using that mem i(1) by (meson distinct_map inj_onD)
      have le: "rowLe b (?f b)" if "b \<in> set (leaveBalances wb)" for b
        using same[OF that] assms(2) by (auto simp: rowLe_def split: leave_type.splits)
      from i(2) obtain new where n: "leaveBalances wb = leaveBalances w @ new" by blast
      have "spec_usedNonDecreasing w (snd ?u)"
        unfolding nonDecreasing_nth
      proof (intro conjI allI impI)
        show "length (leaveBalances w) \<le> length (leaveBalances (snd ?u))"
          by (simp add: u n)
        fix j assume j: "j < length (leaveBalances w)"
        then have "leaveBalances w ! j = leaveBalances wb ! j" by (simp add: n nth_append)
        moreover have "leaveBalances wb ! j \<in> set (leaveBalances wb)"
          using j by (intro nth_mem) (simp add: n)
        note m = this
        moreover have len: "j < length (leaveBalances wb)" using j by (simp add: n)
        moreover have "leaveBalances (snd ?u) = map ?f (leaveBalances wb)" by (simp add: u)
        then have "leaveBalances (snd ?u) ! j = ?f (leaveBalances wb ! j)"
          using len by (simp only: nth_map)
        ultimately show "rowLe (leaveBalances w ! j) (leaveBalances (snd ?u) ! j)"
          using le[OF m] by simp
      qed
      moreover have "distinct (map lb_id (leaveBalances (snd ?u)))"
        using i(1) by (simp add: u ids del: map_map)
      ultimately show ?thesis by simp
    qed
  qed
  then show "distinct (map lb_id (leaveBalances (snd ?u)))"
    and "spec_usedNonDecreasing w (snd ?u)" by simp_all
qed

lemma nonDecreasing_same:
  "leaveBalances w' = leaveBalances w \<Longrightarrow> spec_usedNonDecreasing w w'"
  by (simp add: nonDecreasing_nth rowLe_refl)

lemma ledgerInv_same:
  "leaveBalances w' = leaveBalances w \<Longrightarrow> leaveRequests w' = leaveRequests w
     \<Longrightarrow> ledgerInv w \<Longrightarrow> ledgerInv w'"
  by (simp add: ledgerInv_def)

lemma leave_create_inv:
  assumes "ledgerInv w"
  shows "ledgerInv (snd (leave_create year input w))"
    and "spec_usedNonDecreasing w (snd (leave_create year input w))"
proof -
  let ?r = "leave_create year input w"
  have "ledgerInv (snd ?r) \<and> spec_usedNonDecreasing w (snd ?r)"
  proof (cases "getEmployeeByCode w (li_employeeCode input)")
    case None
    then show ?thesis using assms by (simp add: leave_create_def nonDecreasing_same)
  next
    case (Some emp)
    have d: "0 \<le> computeTotalDays (li_startDate input) (li_endDate input)"
      using computeTotalDays_ge1[of "li_startDate input" "li_endDate input"] by simp
    show ?thesis
    proof (cases "li_leaveType input = Unpaid")
      case True
      from leave_create_unpaid[OF Some True, of year] assms d show ?thesis
        by (simp add: ledgerInv_def nonDecreasing_same spec_pendingRequest_def)
    next
      case False
      obtain res w1 where g: "getOrCreateLeaveBalance year (e_id emp) w = (res, w1)"
        by (cases "getOrCreateLeaveBalance year (e_id emp) w")
      from assms have dist: "distinct (map lb_id (leaveBalances w))" by (simp add: ledgerInv_def)
      note i = getOrCreate_inv[OF g dist]
      show ?thesis
      proof (cases res)
        case (Inl e)
        then have "?r = (Inl e, w1)"
          using Some False g by (simp add: leave_create_def getLeaveBalance_def andThen_def)
        then show ?thesis using i assms
          by (auto simp: ledgerInv_def nonDecreasing_append)
      next
        case (Inr b)
        then obtain balance where gb: "getLeaveBalance year (e_id emp) w = (Inr balance, w1)"
          using g by (simp add: getLeaveBalance_def andThen_def)
        show ?thesis
        proof (cases "remaining (balanceKey (li_leaveType input) balance)
                        < computeTotalDays (li_startDate input) (li_endDate input)")
          case True
          from leave_create_paid(1)[OF Some False gb True] i assms show ?thesis
            by (auto simp: ledgerInv_def nonDecreasing_append)
        next
          case False2: False
          from leave_create_paid(2)[OF Some False gb False2] i assms d show ?thesis
            by (auto simp: ledgerInv_def nonDecreasing_append spec_pendingRequest_def)
        qed
      qed
    qed
  qed
  then show "ledgerInv (snd ?r)" and "spec_usedNonDecreasing w (snd ?r)" by simp_all
qed

lemma leave_reject_inv:
  assumes "ledgerInv w"
  shows "ledgerInv (snd (leave_reject year now rid code reason w))"
    and "spec_usedNonDecreasing w (snd (leave_reject year now rid code reason w))"
proof -
  let ?r = "leave_reject year now rid code reason w"
  have b: "leaveBalances (snd ?r) = leaveBalances w"
    by (cases "reviewGuards w rid code")
       (auto simp: leave_reject_def updateLeaveRequestStatus_def andThen_def Let_def
         notifyDecision_frame)
  have "list_all (\<lambda>r. 0 \<le> totalDays r) (leaveRequests (snd ?r))"
    using assms
    by (cases "reviewGuards w rid code")
       (auto simp: leave_reject_def updateLeaveRequestStatus_def andThen_def Let_def
         notifyDecision_frame ledgerInv_def list_all_iff statusUpdate_def)
  with b assms show "ledgerInv (snd ?r)" by (simp add: ledgerInv_def)
  from b show "spec_usedNonDecreasing w (snd ?r)" by (rule nonDecreasing_same)
qed

lemma leave_approve_inv:
  assumes "ledgerInv w"
  shows "ledgerInv (snd (leave_approve year now rid code w))"
    and "spec_usedNonDecreasing w (snd (leave_approve year now rid code w))"
proof -
  let ?r = "leave_approve year now rid code w"
  have "ledgerInv (snd ?r) \<and> spec_usedNonDecreasing w (snd ?r)"
  proof (cases "reviewGuards w rid code")
    case (Inl e)
    then show ?thesis using assms by (simp add: leave_approve_def nonDecreasing_same)
  next
    case (Inr p)
    obtain reviewer request where p: "p = (reviewer, request)" by (cases p)
    note g = reviewGuards_Inr(3)[OF Inr[unfolded p]]
    let ?X = "map (\<lambda>r. if lr_id r = rid then statusUpdate Approved (e_id reviewer) now None r
                           else r) (leaveRequests w)"
    let ?w1 = "w\<lparr>leaveRequests := ?X\<rparr>"
    let ?u = "updateLeaveBalance year (lr_employeeId request) (lr_leaveType request)
              (totalDays request) ?w1"
    have a: "?r = andThen ?u (\<lambda>_ w'. notifyDecision request w')"
      using Inr p approve_status_step[OF g] by (simp add: leave_approve_def)
    have mem: "request \<in> set (leaveRequests w)"
      using g by (simp add: getLeaveRequestById_def find_Some_mem)
    with assms have days: "0 \<le> totalDays request" by (simp add: ledgerInv_def list_all_iff)
    have d1: "distinct (map lb_id (leaveBalances ?w1))" using assms by (simp add: ledgerInv_def)
    note u = updateLeaveBalance_inv[OF d1 days, of year "lr_employeeId request"
        "lr_leaveType request"]
    have lb: "leaveBalances (snd ?r) = leaveBalances (snd ?u)"
      and lr: "leaveRequests (snd ?r) = ?X"
      unfolding a using updateLeaveBalance_requests[of year "lr_employeeId request"
        "lr_leaveType request" "totalDays request" ?w1]
      by (cases ?u; auto simp: andThen_def notifyDecision_frame split: sum.splits)+
    have "list_all (\<lambda>r. 0 \<le> totalDays r) ?X"
      using assms by (auto simp: ledgerInv_def list_all_iff statusUpdate_def)
    with u(1) lb lr have "ledgerInv (snd ?r)" by (simp add: ledgerInv_def)
    moreover have "spec_usedNonDecreasing w (snd ?r)"
      using u(2) lb by (simp add: spec_usedNonDecreasing_def)
    ultimately show ?thesis by simp
  qed
  then show "ledgerInv (snd ?r)" and "spec_usedNonDecreasing w (snd ?r)" by simp_all
qed

lemma ledgerStep_inv:
  "ledgerInv w \<Longrightarrow> ledgerInv (ledgerStep year op w) \<and> spec_usedNonDecreasing w (ledgerStep year op w)"
  by (cases op) (simp_all add: leave_create_inv leave_approve_inv leave_reject_inv)

lemma ledgerRun_inv:
  "ledgerInv w \<Longrightarrow> ledgerInv (ledgerRun year ops w) \<and> spec_usedNonDecreasing w (ledgerRun year ops w)"
proof (induction ops arbitrary: w)
  case Nil
  then show ?case by (simp add: nonDecreasing_same)
next
  case (Cons op ops)
  from ledgerStep_inv[OF Cons.prems, of year op]
  have s: "ledgerInv (ledgerStep year op w)" "spec_usedNonDecreasing w (ledgerStep year op w)"
    by simp_all
  from Cons.IH[OF s(1)] s(2) show ?case
    by (auto intro: nonDecreasing_trans)
qed

lemma ledgerRun_append:
  "ledgerRun year (ops1 @ ops2) w = ledgerRun year ops2 (ledgerRun year ops1 w)"
  by (induction ops1 arbitrary: w) simp_all

text \<open>
  Claim C7 as stated fails. From a fresh ledger, two requests of 21 annual days are both
  accepted, since a request does not consume the balance, and both are approved: the
  used annual days are then 42, against an annual balance of 21.
\<close>

theorem ledger_used_exceeds_balance_counterexample:
  "leaveBalances ex_ledger = [] \<and> leaveRequests ex_ledger = []
   \<and> map usedAnnual (leaveBalances (ledgerRun 2026 ex_overdraw ex_ledger)) = [42]
   \<and> map annualBalance (leaveBalances (ledgerRun 2026 ex_overdraw ex_ledger)) = [21]"
  by (simp add: ex_overdraw_def ex_leave_defs leave_defs)

text \<open>
  Claim C7, amended. From a fresh ledger (no balance row, no request), along any sequence
  of requests, approvals and rejections within one year, every balance row that exists
  at some point remains, with the same balances, and each of its used counters never
  decreases afterwards. The comparison with the balance is made when a request is
  created, and only then: a request of a type other than unpaid is created in a reachable
  state only if its total days are at most the remaining days of that type at that
  moment.
\<close>

theorem ledger_used_non_decreasing:
  assumes "leaveBalances w0 = []" and "leaveRequests w0 = []"
  shows "spec_usedNonDecreasing (ledgerRun year ops1 w0) (ledgerRun year (ops1 @ ops2) w0)
       \<and> (getEmployeeByCode (ledgerRun year ops1 w0) (li_employeeCode input) = Some emp
            \<and> li_leaveType input \<noteq> Unpaid
            \<and> leave_create year input (ledgerRun year ops1 w0) = (Inr i, w')
          \<longrightarrow> (\<exists>balance w1.
                 getLeaveBalance year (e_id emp) (ledgerRun year ops1 w0) = (Inr balance, w1)
                 \<and> computeTotalDays (li_startDate input) (li_endDate input)
                      \<le> remaining (balanceKey (li_leaveType input) balance)))"
proof -
  have "ledgerInv w0" using assms by (simp add: ledgerInv_def)
  then have "ledgerInv (ledgerRun year ops1 w0)" using ledgerRun_inv by blast
  then have m: "spec_usedNonDecreasing (ledgerRun year ops1 w0)
                  (ledgerRun year (ops1 @ ops2) w0)"
    unfolding ledgerRun_append using ledgerRun_inv by blast
  let ?w = "ledgerRun year ops1 w0"
  have "\<exists>balance w1.
          getLeaveBalance year (e_id emp) ?w = (Inr balance, w1)
          \<and> computeTotalDays (li_startDate input) (li_endDate input)
                \<le> remaining (balanceKey (li_leaveType input) balance)"
    if e: "getEmployeeByCode ?w (li_employeeCode input) = Some emp"
      and t: "li_leaveType input \<noteq> Unpaid" and c: "leave_create year input ?w = (Inr i, w')"
  proof -
    obtain res w1 where g: "getLeaveBalance year (e_id emp) ?w = (res, w1)"
      by (cases "getLeaveBalance year (e_id emp) ?w")
    show ?thesis
    proof (cases res)
      case (Inl x)
      with c e t g show ?thesis by (simp add: leave_create_def andThen_def)
    next
      case (Inr balance)
      with leave_create_paid(1)[OF e t g[unfolded Inr]] c e g show ?thesis
        by (cases "remaining (balanceKey (li_leaveType input) balance)
                        < computeTotalDays (li_startDate input) (li_endDate input)") auto
    qed
  qed
  with m show ?thesis by blast
qed

text \<open>
  In the run above the used annual days go from 21, after the first approval, to 42, and
  the first request was created with 21 days against 21 remaining.
\<close>

theorem ledger_used_non_decreasing_witness:
  "leaveBalances ex_ledger = [] \<and> leaveRequests ex_ledger = []
   \<and> spec_usedNonDecreasing (ledgerRun 2026 (take 3 ex_overdraw) ex_ledger)
       (ledgerRun 2026 (take 3 ex_overdraw @ drop 3 ex_overdraw) ex_ledger)
   \<and> map usedAnnual (leaveBalances (ledgerRun 2026 (take 3 ex_overdraw) ex_ledger)) = [21]
   \<and> map usedAnnual
        (leaveBalances (ledgerRun 2026 (take 3 ex_overdraw @ drop 3 ex_overdraw) ex_ledger))
       = [42]
   \<and> getEmployeeByCode (ledgerRun 2026 [] ex_ledger) (li_employeeCode ex_leave21)
       = Some ex_employee
   \<and> li_leaveType ex_leave21 \<noteq> Unpaid
   \<and> fst (leave_create 2026 ex_leave21 (ledgerRun 2026 [] ex_ledger)) = Inr 1
   \<and> fst (getLeaveBalance 2026 (e_id ex_employee) (ledgerRun 2026 [] ex_ledger))
       = Inr ex_fresh_summary
   \<and> computeTotalDays (li_startDate ex_leave21) (li_endDate ex_leave21)
       \<le> remaining (balanceKey (li_leaveType ex_leave21) ex_fresh_summary)"
proof -
  have f: "leaveBalances ex_ledger = []" "leaveRequests ex_ledger = []"
    by (simp_all add: ex_leave_defs)
  have u: "map usedAnnual (leaveBalances (ledgerRun 2026 (take 3 ex_overdraw) ex_ledger)) = [21]"
    "map usedAnnual
        (leaveBalances (ledgerRun 2026 (take 3 ex_overdraw @ drop 3 ex_overdraw) ex_ledger))
       = [42]"
    by (simp_all add: ex_overdraw_def ex_leave_defs leave_defs)
  have e: "getEmployeeByCode (ledgerRun 2026 [] ex_ledger) (li_employeeCode ex_leave21)
             = Some ex_employee"
    and t: "li_leaveType ex_leave21 \<noteq> Unpaid"
    by (simp_all add: getEmployeeByCode_def ex_leave_defs)
  obtain w' where c: "leave_create 2026 ex_leave21 (ledgerRun 2026 [] ex_ledger) = (Inr 1, w')"
    by (simp add: ex_leave_defs leave_defs)
  obtain w1 where g: "getLeaveBalance 2026 (e_id ex_employee) (ledgerRun 2026 [] ex_ledger)
                        = (Inr ex_fresh_summary, w1)"
    by (simp add: ex_fresh_summary_def ex_leave_defs leave_defs)
  from ledger_used_non_decreasing[OF f, of 2026 "take 3 ex_overdraw" "drop 3 ex_overdraw"
      ex_leave21 ex_employee 1 w']
    ledger_used_non_decreasing[OF f, of 2026 "[]" "[]" ex_leave21 ex_employee 1 w']
    f u e t c g
  show ?thesis by auto
qed

section \<open>The empty device id\<close>

text \<open>
  A check-in by code that presents the empty string as device id runs as the check-in
  without a device id: the device guard is skipped.
\<close>

lemma checkInByCode_empty_deviceId:
  "ci_deviceId input = Some [] \<Longrightarrow>
     checkInByCode now input w = checkInByCode now (input\<lparr>ci_deviceId := None\<rparr>) w"
  by (simp add: checkInByCode_def checkInDeviceGuard_def truthy_def andThen_def
      split: option.splits)

section \<open>The balance row of another year\<close>

text \<open>
  Claim C5, the code at a failing input. The employee's only balance row is the one of
  2025, with 21 annual days and none used. In 2025 a request of one day of annual leave is
  created, as the claim says. In 2026 the same request finds no row of the year, the
  insert of a new row is rejected because \<open>employeeId\<close> is unique in \<open>leave_balances\<close>, and
  \<open>leave.create\<close> fails with the store's error: it neither reports an insufficient balance
  nor creates the request, and the store is as it was.
\<close>

theorem leave_create_blocked_by_other_year_balance:
  "leaveBalances ex_stale_ledger = [ex_stale_balance]
   \<and> annualBalance ex_stale_balance - usedAnnual ex_stale_balance = 21
   \<and> li_leaveType ex_leave1 = Annual
   \<and> computeTotalDays (li_startDate ex_leave1) (li_endDate ex_leave1) = 1
   \<and> fst (leave_create 2025 ex_leave1 ex_stale_ledger) = Inr 1
   \<and> leave_create 2026 ex_leave1 ex_stale_ledger = (Inl DatabaseError, ex_stale_ledger)"
  by (simp add: ex_stale_ledger_def ex_stale_balance_def ex_leave1_def ex_leave_defs
      leave_defs)

text \<open>
  Claim C6, the code at a failing input. The request of one day of annual leave was made
  in 2025 and is pending. Approved in 2025, it adds one day to the used annual days.
  Approved in 2026 by the same branch manager, it is marked approved with reviewer and
  time, the insert of a balance row for 2026 is rejected, nothing is added to any used
  counter, and the call fails with the store's error.
\<close>

theorem leave_approve_without_increment_across_years:
  "map lr_status (leaveRequests ex_carried) = [Pending]
   \<and> map lr_leaveType (leaveRequests ex_carried) = [Annual]
   \<and> map totalDays (leaveRequests ex_carried) = [1]
   \<and> leaveBalances ex_carried = [ex_stale_balance]
   \<and> usedAnnual ex_stale_balance = 0
   \<and> fst (leave_approve 2025 5 1 ''M1'' ex_carried) = Inr ()
   \<and> map usedAnnual (leaveBalances (snd (leave_approve 2025 5 1 ''M1'' ex_carried))) = [1]
   \<and> fst (leave_approve 2026 5 1 ''M1'' ex_carried) = Inl DatabaseError
   \<and> map lr_status (leaveRequests (snd (leave_approve 2026 5 1 ''M1'' ex_carried)))
       = [Approved]
   \<and> map reviewedBy (leaveRequests (snd (leave_approve 2026 5 1 ''M1'' ex_carried)))
       = [Some 2]
   \<and> leaveBalances (snd (leave_approve 2026 5 1 ''M1'' ex_carried)) = [ex_stale_balance]"
  by (simp add: ex_carried_def ex_stale_ledger_def ex_stale_balance_def ex_leave1_def
      ex_leave_defs leave_defs)

end
